theory Spec2Isabelle
  imports Complex_Main "HOL-Library.AList" "HOL-Library.Sublist" "HOL-Library.Word"
begin

section \<open>Data model\<close>

text \<open>
  The development embeds \<^verbatim>\<open>src/api/apple-icons-helper.ts\<close> and the function
  \<^verbatim>\<open>run\<close> of \<^verbatim>\<open>src/cli-start.ts\<close>.

  Conventions. An optional property of a TypeScript object is an \<open>option\<close> field:
  \<open>None\<close> stands for a property that is absent or holds \<^verbatim>\<open>undefined\<close> (the code
  never tells the two apart: it reads with \<^verbatim>\<open>typeof x === 'undefined'\<close>,
  \<^verbatim>\<open>??\<close>, \<^verbatim>\<open>?.\<close>, truthiness of an object, and default values in destructuring
  patterns). Pixel dimensions are \<open>int\<close>, the padding fraction is \<open>real\<close> (the code only
  stores and compares these numbers, it does no arithmetic on them). Field names carry a
  prefix naming their record, since several records of the source share property names.
\<close>

text \<open>\<^verbatim>\<open>ResizeOptions\<close> and \<^verbatim>\<open>PngOptions\<close> of the image library (sharp).\<close>

record ResizeOptions =
  ro_width :: "int option"
  ro_height :: "int option"
  ro_fit :: "string option"
  ro_position :: "string option"
  ro_background :: "string option"
  ro_kernel :: "string option"
  ro_withoutEnlargement :: "bool option"
  ro_withoutReduction :: "bool option"
  ro_fastShrinkOnLoad :: "bool option"

record PngOptions =
  png_progressive :: "bool option"
  png_compressionLevel :: "int option"
  png_adaptiveFiltering :: "bool option"
  png_palette :: "bool option"
  png_quality :: "int option"
  png_effort :: "int option"
  png_colours :: "int option"
  png_force :: "bool option"

text \<open>The object literal \<^verbatim>\<open>{}\<close> at these two types.\<close>

definition emptyResizeOptions :: ResizeOptions where
  "emptyResizeOptions =
     \<lparr>ro_width = None, ro_height = None, ro_fit = None, ro_position = None,
      ro_background = None, ro_kernel = None, ro_withoutEnlargement = None,
      ro_withoutReduction = None, ro_fastShrinkOnLoad = None\<rparr>"

definition emptyPngOptions :: PngOptions where
  "emptyPngOptions =
     \<lparr>png_progressive = None, png_compressionLevel = None, png_adaptiveFiltering = None,
      png_palette = None, png_quality = None, png_effort = None, png_colours = None,
      png_force = None\<rparr>"

text \<open>
  Optional resize options read as an object: \<^verbatim>\<open>x || {}\<close> and the spread
  \<^verbatim>\<open>{ ...x }\<close>, which both give the empty object for \<^verbatim>\<open>undefined\<close>.
\<close>

definition orEmpty :: "ResizeOptions option \<Rightarrow> ResizeOptions" where
  "orEmpty x = (case x of None \<Rightarrow> emptyResizeOptions | Some r \<Rightarrow> r)"

text \<open>A size descriptor (\<^verbatim>\<open>AppleDeviceSize\<close>), with the properties the code reads.\<close>

record AppleDeviceSize =
  ads_width :: int
  ads_height :: int
  ads_padding :: "real option"
  ads_png :: "PngOptions option"
  ads_resizeOptions :: "ResizeOptions option"
  ads_darkResizeOptions :: "ResizeOptions option"

type_synonym AppleSplashScreenName = "bool \<Rightarrow> AppleDeviceSize \<Rightarrow> bool option \<Rightarrow> string"

record LinkMediaOptions =
  lmo_log :: "bool option"
  lmo_addMediaScreen :: "bool option"
  lmo_basePath :: "string option"
  lmo_xhtml :: "bool option"

text \<open>The splash-screen configuration of a preset (\<^verbatim>\<open>AppleSplashScreens\<close>).\<close>

record AppleSplashScreens =
  ass_sizes :: "AppleDeviceSize list"
  ass_padding :: "real option"
  ass_resizeOptions :: "ResizeOptions option"
  ass_darkResizeOptions :: "ResizeOptions option"
  ass_linkMediaOptions :: "LinkMediaOptions option"
  ass_name :: "AppleSplashScreenName option"
  ass_png :: "PngOptions option"

record ResolvedLinkMediaOptions =
  rlmo_log :: bool
  rlmo_addMediaScreen :: bool
  rlmo_basePath :: string
  rlmo_xhtml :: bool

record ResolvedAppleSplashScreens =
  ras_padding :: real
  ras_sizes :: "AppleDeviceSize list"
  ras_linkMediaOptions :: ResolvedLinkMediaOptions
  ras_name :: AppleSplashScreenName
  ras_png :: PngOptions

text \<open>
  Three functions the helper imports from modules that are not part of the embedded
  files: \<^verbatim>\<open>createResizeOptions\<close> and \<^verbatim>\<open>createPngCompressionOptions\<close> of
  \<^verbatim>\<open>./defaults.ts\<close>, which overlay the preset-level options on the built-in defaults,
  and \<^verbatim>\<open>defaultSplashScreenName\<close> of \<^verbatim>\<open>../splash.ts\<close>. They are parameters of the
  embedding: every general theorem below holds for all of them.
\<close>

record externals =
  createResizeOptions :: "bool \<Rightarrow> ResizeOptions \<Rightarrow> ResizeOptions"
  createPngCompressionOptions :: "PngOptions \<Rightarrow> PngOptions"
  defaultSplashScreenName :: AppleSplashScreenName

text \<open>One element of the \<^verbatim>\<open>splashScreens\<close> array: a resolved variant.\<close>

record SplashScreenData =
  ssd_size :: AppleDeviceSize
  ssd_landscape :: bool
  ssd_dark :: "bool option"
  ssd_resizeOptions :: "ResizeOptions option"
  ssd_padding :: real
  ssd_png :: PngOptions

section \<open>The option cascade: \<^verbatim>\<open>resolveAppleSplashScreens\<close>\<close>

text \<open>
  The body of the loop \<^verbatim>\<open>for (const size of sizes)\<close>: each of the four properties is
  assigned only when \<^verbatim>\<open>typeof size.p === 'undefined'\<close>. The loop writes into the
  caller's size objects; the model returns the updated descriptor.
\<close>

definition fillDefaults ::
  "real \<Rightarrow> PngOptions \<Rightarrow> ResizeOptions \<Rightarrow> ResizeOptions \<Rightarrow> AppleDeviceSize \<Rightarrow> AppleDeviceSize" where
  "fillDefaults padding png resizeOptions darkResizeOptions sz =
     (let size1 = (if ads_padding sz = None then sz\<lparr>ads_padding := Some padding\<rparr> else sz);
          size2 = (if ads_png size1 = None then size1\<lparr>ads_png := Some png\<rparr> else size1);
          size3 = (if ads_resizeOptions size2 = None
                   then size2\<lparr>ads_resizeOptions := Some resizeOptions\<rparr> else size2);
          size4 = (if ads_darkResizeOptions size3 = None
                   then size3\<lparr>ads_darkResizeOptions := Some darkResizeOptions\<rparr> else size3)
      in size4)"

text \<open>
  The values the destructuring pattern and the three \<^verbatim>\<open>create...\<close> calls compute from
  the configuration, and the loop over all sizes.
\<close>

definition usePadding :: "AppleSplashScreens \<Rightarrow> real" where
  "usePadding u = (case ass_padding u of None \<Rightarrow> 3 / 10 | Some p \<Rightarrow> p)"

definition useLightResizeOptions :: "externals \<Rightarrow> AppleSplashScreens \<Rightarrow> ResizeOptions" where
  "useLightResizeOptions ext u =
     createResizeOptions ext False
       (case ass_resizeOptions u of None \<Rightarrow> emptyResizeOptions | Some r \<Rightarrow> r)"

definition useDarkResizeOptions :: "externals \<Rightarrow> AppleSplashScreens \<Rightarrow> ResizeOptions" where
  "useDarkResizeOptions ext u =
     createResizeOptions ext True
       (case ass_darkResizeOptions u of None \<Rightarrow> emptyResizeOptions | Some r \<Rightarrow> r)"

definition usePng :: "externals \<Rightarrow> AppleSplashScreens \<Rightarrow> PngOptions" where
  "usePng ext u =
     createPngCompressionOptions ext
       (case ass_png u of None \<Rightarrow> emptyPngOptions | Some p \<Rightarrow> p)"

definition resolveSize :: "externals \<Rightarrow> AppleSplashScreens \<Rightarrow> AppleDeviceSize \<Rightarrow> AppleDeviceSize" where
  "resolveSize ext u =
     fillDefaults (usePadding u) (usePng ext u) (useLightResizeOptions ext u)
       (useDarkResizeOptions ext u)"

definition resolveLinkMediaOptions :: "LinkMediaOptions option \<Rightarrow> ResolvedLinkMediaOptions" where
  "resolveLinkMediaOptions useLinkMediaOptions =
     (case useLinkMediaOptions of
        None \<Rightarrow> \<lparr>rlmo_log = True, rlmo_addMediaScreen = True, rlmo_basePath = ''/'',
                 rlmo_xhtml = False\<rparr>
      | Some l \<Rightarrow>
          \<lparr>rlmo_log = (case lmo_log l of None \<Rightarrow> True | Some b \<Rightarrow> b),
           rlmo_addMediaScreen = (case lmo_addMediaScreen l of None \<Rightarrow> True | Some b \<Rightarrow> b),
           rlmo_basePath = (case lmo_basePath l of None \<Rightarrow> ''/'' | Some p \<Rightarrow> p),
           rlmo_xhtml = (case lmo_xhtml l of None \<Rightarrow> False | Some b \<Rightarrow> b)\<rparr>)"

text \<open>
  The object built inside \<^verbatim>\<open>if (useAppleSplashScreens) { ... }\<close>; its \<^verbatim>\<open>sizes\<close> is
  the caller's array, whose elements the loop has filled in.
\<close>

definition resolveConfig :: "externals \<Rightarrow> AppleSplashScreens \<Rightarrow> ResolvedAppleSplashScreens" where
  "resolveConfig ext u =
     \<lparr>ras_padding = usePadding u,
      ras_sizes = map (resolveSize ext u) (ass_sizes u),
      ras_linkMediaOptions = resolveLinkMediaOptions (ass_linkMediaOptions u),
      ras_name = (case ass_name u of None \<Rightarrow> defaultSplashScreenName ext | Some n \<Rightarrow> n),
      ras_png = usePng ext u\<rparr>"

definition resolveAppleSplashScreens ::
  "externals \<Rightarrow> AppleSplashScreens option \<Rightarrow> ResolvedAppleSplashScreens option" where
  "resolveAppleSplashScreens ext useAppleSplashScreens =
     (case useAppleSplashScreens of
        None \<Rightarrow> None
      | Some u \<Rightarrow> Some (resolveConfig ext u))"

section \<open>The variant expander: the \<^verbatim>\<open>reduce\<close> over the sizes\<close>

text \<open>
  \<^verbatim>\<open>const { width: a, height: b, ...rest } = r\<close> followed by
  \<^verbatim>\<open>{ ...rest, width: b, height: a }\<close>: the rest object is \<open>r\<close> without its two
  dimensions, and the new object puts them back exchanged.
\<close>

definition landscapeOf :: "ResizeOptions \<Rightarrow> ResizeOptions" where
  "landscapeOf r =
     (let lheight = ro_width r;
          lwidth = ro_height r;
          restResizeOptions = r\<lparr>ro_width := None, ro_height := None\<rparr>
      in restResizeOptions\<lparr>ro_width := lwidth, ro_height := lheight\<rparr>)"

definition landscapeSize :: "AppleDeviceSize \<Rightarrow> AppleDeviceSize" where
  "landscapeSize sz =
     sz\<lparr>ads_width := ads_height sz, ads_height := ads_width sz,
          ads_resizeOptions := Some (landscapeOf (orEmpty (ads_resizeOptions sz)))\<rparr>"

definition landscapeDarkSize :: "AppleDeviceSize \<Rightarrow> ResizeOptions \<Rightarrow> AppleDeviceSize" where
  "landscapeDarkSize sz darkResizeOptions =
     sz\<lparr>ads_width := ads_height sz, ads_height := ads_width sz,
          ads_resizeOptions := Some (landscapeOf darkResizeOptions),
          ads_darkResizeOptions := None\<rparr>"

text \<open>
  The elements one descriptor pushes onto the accumulator: two, and two more when
  \<^verbatim>\<open>size.darkResizeOptions\<close> is truthy (an object always is).
\<close>

definition variantsOf :: "PngOptions \<Rightarrow> AppleDeviceSize \<Rightarrow> SplashScreenData list" where
  "variantsOf png sz =
     (let dark = (if ads_darkResizeOptions sz \<noteq> None then Some False else None);
          padding = (case ads_padding sz of None \<Rightarrow> 3 / 10 | Some p \<Rightarrow> p);
          pngOpts = (case ads_png sz of None \<Rightarrow> png | Some p \<Rightarrow> p)
      in [\<lparr>ssd_size = sz, ssd_landscape = False, ssd_dark = dark,
           ssd_resizeOptions = ads_resizeOptions sz, ssd_padding = padding,
           ssd_png = pngOpts\<rparr>,
          \<lparr>ssd_size = landscapeSize sz, ssd_landscape = True, ssd_dark = dark,
           ssd_resizeOptions = ads_resizeOptions (landscapeSize sz), ssd_padding = padding,
           ssd_png = pngOpts\<rparr>]
         @ (case ads_darkResizeOptions sz of
              None \<Rightarrow> []
            | Some d \<Rightarrow>
                [\<lparr>ssd_size = sz, ssd_landscape = False, ssd_dark = Some True,
                  ssd_resizeOptions = Some d, ssd_padding = padding, ssd_png = pngOpts\<rparr>,
                 \<lparr>ssd_size = landscapeDarkSize sz d, ssd_landscape = True,
                  ssd_dark = Some True, ssd_resizeOptions = Some (landscapeOf d),
                  ssd_padding = padding, ssd_png = pngOpts\<rparr>]))"

text \<open>
  The callback of \<^verbatim>\<open>sizes.reduce\<close>. Its state is the accumulator together with
  \<^verbatim>\<open>sizesMap\<close>, a \<^verbatim>\<open>Map<number, number>\<close> from a width to the height stored last
  for it: a descriptor is skipped when \<^verbatim>\<open>sizesMap.get(size.width) === size.height\<close>,
  and otherwise \<^verbatim>\<open>sizesMap.set(size.width, size.height)\<close> replaces the entry of
  that width.
\<close>

definition reducer ::
  "PngOptions \<Rightarrow> (int \<rightharpoonup> int) \<times> SplashScreenData list \<Rightarrow> AppleDeviceSize
     \<Rightarrow> (int \<rightharpoonup> int) \<times> SplashScreenData list" where
  "reducer png st sz =
     (case st of (sizesMap, acc) \<Rightarrow>
        if sizesMap (ads_width sz) = Some (ads_height sz) then (sizesMap, acc)
        else (sizesMap(ads_width sz \<mapsto> ads_height sz), acc @ variantsOf png sz))"

definition splashScreens :: "PngOptions \<Rightarrow> AppleDeviceSize list \<Rightarrow> SplashScreenData list" where
  "splashScreens png sizes = snd (foldl (reducer png) (Map.empty, []) sizes)"

section \<open>The asset entries: the loop over \<^verbatim>\<open>splashScreens\<close>\<close>

type_synonym Buffer = "8 word list"

record HtmlLinks =
  hl_xhtml :: bool
  hl_includeId :: bool

record ImageAssets =
  ia_basePath :: string
  ia_htmlLinks :: HtmlLinks

text \<open>
  The two calls whose results an entry stores are calls into other modules
  (\<^verbatim>\<open>createAppleSplashScreenHtmlLink\<close> of \<^verbatim>\<open>./html.ts\<close>, \<^verbatim>\<open>generateMaskableAsset\<close> of
  \<^verbatim>\<open>./maskable.ts\<close>). An entry records each call by its arguments: the link calls by
  their mode (\<^verbatim>\<open>'string'\<close> or \<^verbatim>\<open>'link'\<close>) and options object, the deferred producer
  \<^verbatim>\<open>buffer\<close> by the arguments it will pass to \<^verbatim>\<open>generateMaskableAsset\<close> when invoked.
\<close>

record HtmlLinkOptions =
  hlo_size :: AppleDeviceSize
  hlo_landscape :: bool
  hlo_addMediaScreen :: bool
  hlo_xhtml :: bool
  hlo_name :: AppleSplashScreenName
  hlo_basePath :: string
  hlo_dark :: "bool option"
  hlo_includeId :: bool

record MaskableAssetCall =
  gma_type :: string
  gma_image :: Buffer
  gma_size :: AppleDeviceSize
  gma_padding :: real
  gma_resizeOptions :: ResizeOptions
  gma_outputOptions :: PngOptions

record SplashScreenAsset =
  asset_name :: string
  asset_url :: string
  asset_width :: int
  asset_height :: int
  asset_mimeType :: string
  asset_link :: "string \<times> HtmlLinkOptions"
  asset_linkObject :: "string \<times> HtmlLinkOptions"
  asset_buffer :: MaskableAssetCall

text \<open>
  The instructions object: one mapping from URL to entry per category, an ordinary
  JavaScript object. The model keeps the own properties of such an object as an
  association list in the order in which the object enumerates them: first the keys
  that are array indices (canonical decimal numerals below \<open>2^32 - 1\<close>) in ascending
  numeric order, then the other string keys in the order of their creation. An
  assignment to an existing key replaces the value where it stands; an assignment to
  a new key creates the property at its place in that order; an assignment to the key
  \<^verbatim>\<open>__proto__\<close> creates no property (on an object made by an object literal it sets
  the prototype). \<open>'icon\<close> is the entry type of the other categories, which this module
  never touches; the functions below are stated over the record scheme, so that
  whatever further properties the instructions object has are carried along as well.
\<close>

record 'icon ImageAssetsInstructions =
  iai_image :: string
  iai_originalName :: string
  iai_favicon :: "(string \<times> 'icon) list"
  iai_transparent :: "(string \<times> 'icon) list"
  iai_maskable :: "(string \<times> 'icon) list"
  iai_apple :: "(string \<times> 'icon) list"
  iai_appleSplashScreen :: "(string \<times> SplashScreenAsset) list"

definition arrayIndexOf :: "string \<Rightarrow> nat" where
  "arrayIndexOf k = foldl (\<lambda>n c. 10 * n + (of_char c - 48)) 0 k"

definition isArrayIndex :: "string \<Rightarrow> bool" where
  "isArrayIndex k =
     (k \<noteq> [] \<and> list_all (\<lambda>c. c \<in> set ''0123456789'') k
      \<and> (k = ''0'' \<or> hd k \<noteq> CHR ''0'')
      \<and> arrayIndexOf k < 2 ^ 32 - 1)"

fun insertProperty :: "string \<Rightarrow> 'v \<Rightarrow> (string \<times> 'v) list \<Rightarrow> (string \<times> 'v) list" where
  "insertProperty k v [] = [(k, v)]"
| "insertProperty k v (p # ps) =
     (if isArrayIndex k \<and> (\<not> isArrayIndex (fst p) \<or> arrayIndexOf k < arrayIndexOf (fst p))
      then (k, v) # p # ps
      else p # insertProperty k v ps)"

definition assignProperty :: "string \<Rightarrow> 'v \<Rightarrow> (string \<times> 'v) list \<Rightarrow> (string \<times> 'v) list" where
  "assignProperty k v ps =
     (if k = ''__proto__'' then ps
      else if k \<in> fst ` set ps then AList.update k v ps
      else insertProperty k v ps)"

text \<open>
  The options of the producer call:
  \<^verbatim>\<open>{ ...size.resizeOptions, background: size.resizeOptions?.background ?? (size.dark ? 'black' : 'white') }\<close>.
\<close>

definition producerResizeOptions :: "SplashScreenData \<Rightarrow> ResizeOptions" where
  "producerResizeOptions v =
     (orEmpty (ssd_resizeOptions v))
       \<lparr>ro_background :=
          Some (case (case ssd_resizeOptions v of None \<Rightarrow> None | Some r \<Rightarrow> ro_background r) of
                  Some b \<Rightarrow> b
                | None \<Rightarrow> (if ssd_dark v = Some True then ''black'' else ''white''))\<rparr>"

definition htmlLinkOptions ::
  "ImageAssets \<Rightarrow> ResolvedAppleSplashScreens \<Rightarrow> SplashScreenData \<Rightarrow> HtmlLinkOptions" where
  "htmlLinkOptions imageAssets r v =
     \<lparr>hlo_size = ssd_size v, hlo_landscape = ssd_landscape v,
      hlo_addMediaScreen = rlmo_addMediaScreen (ras_linkMediaOptions r),
      hlo_xhtml = rlmo_xhtml (ras_linkMediaOptions r),
      hlo_name = ras_name r,
      hlo_basePath = rlmo_basePath (ras_linkMediaOptions r),
      hlo_dark = ssd_dark v,
      hlo_includeId = hl_includeId (ia_htmlLinks imageAssets)\<rparr>"

definition splashScreenAsset ::
  "Buffer \<Rightarrow> ImageAssets \<Rightarrow> ResolvedAppleSplashScreens \<Rightarrow> SplashScreenData \<Rightarrow> SplashScreenAsset" where
  "splashScreenAsset img imageAssets r v =
     (let name = ras_name r (ssd_landscape v) (ssd_size v) (ssd_dark v);
          url = ia_basePath imageAssets @ name
      in \<lparr>asset_name = name, asset_url = url,
          asset_width = ads_width (ssd_size v), asset_height = ads_height (ssd_size v),
          asset_mimeType = ''image/png'',
          asset_link = (''string'', htmlLinkOptions imageAssets r v),
          asset_linkObject = (''link'', htmlLinkOptions imageAssets r v),
          asset_buffer =
            \<lparr>gma_type = ''png'', gma_image = img, gma_size = ssd_size v,
             gma_padding = ssd_padding v, gma_resizeOptions = producerResizeOptions v,
             gma_outputOptions = ssd_png v\<rparr>\<rparr>)"

text \<open>One turn of the loop: \<^verbatim>\<open>instructions.appleSplashScreen[url] = { ... }\<close>.\<close>

definition assignAsset ::
  "Buffer \<Rightarrow> ImageAssets \<Rightarrow> ResolvedAppleSplashScreens
     \<Rightarrow> ('icon, 'z) ImageAssetsInstructions_scheme \<Rightarrow> SplashScreenData
     \<Rightarrow> ('icon, 'z) ImageAssetsInstructions_scheme" where
  "assignAsset img imageAssets r instructions v =
     (let asset = splashScreenAsset img imageAssets r v
      in instructions\<lparr>iai_appleSplashScreen :=
           assignProperty (asset_url asset) asset (iai_appleSplashScreen instructions)\<rparr>)"

text \<open>
  The exported function. It returns nothing; its effects are the assignments to
  \<^verbatim>\<open>instructions.appleSplashScreen\<close> and the defaults that
  \<^verbatim>\<open>resolveAppleSplashScreens\<close> writes into the size objects of the configuration it is
  given. The model returns both objects as they are after the call.
\<close>

definition resolveAppleSplashScreensInstructions ::
  "externals \<Rightarrow> Buffer \<Rightarrow> ImageAssets \<Rightarrow> ('icon, 'z) ImageAssetsInstructions_scheme
     \<Rightarrow> AppleSplashScreens option
     \<Rightarrow> ('icon, 'z) ImageAssetsInstructions_scheme \<times> AppleSplashScreens option" where
  "resolveAppleSplashScreensInstructions ext img imageAssets instructions useAppleSplashScreens =
     (case resolveAppleSplashScreens ext useAppleSplashScreens of
        None \<Rightarrow> (instructions, useAppleSplashScreens)
      | Some appleSplashScreens \<Rightarrow>
          (let after = map_option (\<lambda>u. u\<lparr>ass_sizes := ras_sizes appleSplashScreens\<rparr>)
                         useAppleSplashScreens
           in if ras_sizes appleSplashScreens = [] then (instructions, after)
              else (foldl (assignAsset img imageAssets appleSplashScreens) instructions
                      (splashScreens (ras_png appleSplashScreens) (ras_sizes appleSplashScreens)),
                    after)))"

text \<open>
  The variants a configuration expands to: the array \<^verbatim>\<open>splashScreens\<close> that the
  exported function builds from the resolved configuration.
\<close>

definition emittedVariants :: "externals \<Rightarrow> AppleSplashScreens \<Rightarrow> SplashScreenData list" where
  "emittedVariants ext u =
     (case resolveAppleSplashScreens ext (Some u) of
        None \<Rightarrow> []
      | Some appleSplashScreens \<Rightarrow>
          splashScreens (ras_png appleSplashScreens) (ras_sizes appleSplashScreens))"

section \<open>The command line: \<^verbatim>\<open>run\<close>\<close>

text \<open>
  \<^verbatim>\<open>config.images\<close> is a single file name or an array of them (the code tests
  \<^verbatim>\<open>Array.isArray\<close>). \<^verbatim>\<open>config.preset\<close> is the name of a built-in preset or a preset
  object, of type \<open>'preset\<close>, which \<^verbatim>\<open>run\<close> only passes on.
\<close>

datatype images = OneImage string | ImageList "string list"

datatype 'preset presetSetting = PresetName string | PresetObject 'preset

record HeadLinkOptions =
  hlk_preset :: "string option"
  hlk_xhtml :: "bool option"
  hlk_includeId :: "bool option"
  hlk_basePath :: "string option"
  hlk_resolveSvgName :: "(string \<Rightarrow> string) option"

record 'preset UserConfig =
  uc_preset :: "'preset presetSetting option"
  uc_images :: "images option"
  uc_logLevel :: "string option"
  uc_overrideAssets :: "bool option"
  uc_headLinkOptions :: "HeadLinkOptions option"
  uc_manifestIconsEntry :: "bool option"

record CliOptions =
  cli_root :: "string option"
  cli_config :: "string option"
  cli_preset :: "string option"
  cli_override :: "bool option"
  cli_manifest :: "bool option"

text \<open>
  The errors: \<^verbatim>\<open>new Error('No preset found')\<close>, \<^verbatim>\<open>new Error('No images provided')\<close>,
  and a failure of one of the modules \<^verbatim>\<open>run\<close> calls, with its message.
\<close>

datatype error = NoPresetFound | NoImagesProvided | Failure string

text \<open>
  \<^verbatim>\<open>run\<close> is declared \<^verbatim>\<open>async\<close>. A call of an \<^verbatim>\<open>async\<close> function completes by
  returning a promise, whatever its body does: a \<^verbatim>\<open>throw\<close> in the body rejects that
  promise. The two datatypes keep the two ways of failing apart: \<open>Thrown\<close> is an
  exception raised by the call itself, \<open>Returned (Rejected e)\<close> a promise that
  settles with the error.
\<close>

datatype 'a promise = Fulfilled 'a | Rejected error

datatype 'a completion = Returned 'a | Thrown error

text \<open>
  The argument object of one call of \<^verbatim>\<open>resolveInstructions\<close>. \<^verbatim>\<open>imageName\<close> and the file
  that \<^verbatim>\<open>imageResolver\<close> reads are both \<^verbatim>\<open>resolve(root, i)\<close>, kept here as the
  pair of \<open>ria_root\<close> and \<open>ria_originalName\<close>; \<open>ria_resolveSvgName = None\<close> stands for
  the default \<^verbatim>\<open>name => basename(name)\<close>.
\<close>

record 'preset ResolveInstructionsArgs =
  ria_root :: string
  ria_originalName :: string
  ria_preset :: "'preset presetSetting"
  ria_faviconPreset :: "string option"
  ria_xhtml :: bool
  ria_includeId :: bool
  ria_basePath :: string
  ria_resolveSvgName :: "(string \<Rightarrow> string) option"

record RunSettings =
  rs_useOverrideAssets :: bool
  rs_log :: bool
  rs_useManifestIconsEntry :: bool

text \<open>
  What a call of \<^verbatim>\<open>run\<close> has done once its promise has settled: the calls of
  \<^verbatim>\<open>resolveInstructions\<close> it made, in order, and how the promise settled.
\<close>

record 'preset RunResult =
  rr_resolveCalls :: "'preset ResolveInstructionsArgs list"
  rr_promise :: "unit promise"

text \<open>
  Truthiness of \<^verbatim>\<open>config.preset\<close>, which the code tests with \<^verbatim>\<open>!config.preset\<close>: an
  object is truthy, a string is truthy unless it is empty, \<^verbatim>\<open>undefined\<close> is falsy.
\<close>

definition truthyPreset :: "'preset presetSetting \<Rightarrow> bool" where
  "truthyPreset p = (case p of PresetName n \<Rightarrow> length n \<noteq> 0 | PresetObject obj \<Rightarrow> True)"

definition hasPreset :: "'preset presetSetting option \<Rightarrow> bool" where
  "hasPreset p = (case p of None \<Rightarrow> False | Some s \<Rightarrow> truthyPreset s)"

text \<open>Truthiness of \<^verbatim>\<open>config.images?.length\<close>.\<close>

definition hasLength :: "images option \<Rightarrow> bool" where
  "hasLength imgs =
     (case imgs of
        None \<Rightarrow> False
      | Some (OneImage s) \<Rightarrow> length s \<noteq> 0
      | Some (ImageList xs) \<Rightarrow> length xs \<noteq> 0)"

definition resolveInstructionsArgs ::
  "string \<Rightarrow> 'preset presetSetting \<Rightarrow> HeadLinkOptions option \<Rightarrow> string
     \<Rightarrow> 'preset ResolveInstructionsArgs" where
  "resolveInstructionsArgs rootDir preset userHeadLinkOptions i =
     \<lparr>ria_root = rootDir, ria_originalName = i, ria_preset = preset,
      ria_faviconPreset = (case userHeadLinkOptions of None \<Rightarrow> None | Some h \<Rightarrow> hlk_preset h),
      ria_xhtml = ((case userHeadLinkOptions of None \<Rightarrow> None | Some h \<Rightarrow> hlk_xhtml h) = Some True),
      ria_includeId =
        ((case userHeadLinkOptions of None \<Rightarrow> None | Some h \<Rightarrow> hlk_includeId h) = Some True),
      ria_basePath =
        (case (case userHeadLinkOptions of None \<Rightarrow> None | Some h \<Rightarrow> hlk_basePath h) of
           None \<Rightarrow> ''/'' | Some p \<Rightarrow> p),
      ria_resolveSvgName =
        (case userHeadLinkOptions of None \<Rightarrow> None | Some h \<Rightarrow> hlk_resolveSvgName h)\<rparr>"

text \<open>
  \<^verbatim>\<open>run(images, cliOptions)\<close>. Its collaborators are parameters: \<open>loadConfig\<close> gives the
  loaded configuration or fails; \<open>downstream\<close> stands for everything from the first
  \<^verbatim>\<open>resolveInstructions\<close> call on (resolution, asset generation, printing), given the
  calls' arguments and the settings computed for them, and answers \<open>None\<close> when all of
  it succeeds and the message of the failure otherwise. \<open>cwd\<close> is \<^verbatim>\<open>process.cwd()\<close>.
  \<^verbatim>\<open>Promise.all(useImages.map(...))\<close> starts one resolution per image before any of
  them is awaited, so every image of \<open>useImages\<close> has its call.
\<close>

definition run ::
  "(string \<Rightarrow> CliOptions \<Rightarrow> error + 'preset UserConfig)
     \<Rightarrow> ('preset ResolveInstructionsArgs list \<Rightarrow> RunSettings \<Rightarrow> string option)
     \<Rightarrow> string \<Rightarrow> string list \<Rightarrow> CliOptions \<Rightarrow> 'preset RunResult completion" where
  "run loadConfig downstream cwd imgs cliOptions =
     Returned
       (let rootDir = (case cli_root cliOptions of None \<Rightarrow> cwd | Some r \<Rightarrow> r)
        in case loadConfig rootDir cliOptions of
             Inl e \<Rightarrow> \<lparr>rr_resolveCalls = [], rr_promise = Rejected e\<rparr>
           | Inr config0 \<Rightarrow>
               (case uc_preset config0 of
                  None \<Rightarrow> \<lparr>rr_resolveCalls = [], rr_promise = Rejected NoPresetFound\<rparr>
                | Some preset \<Rightarrow>
                    if \<not> truthyPreset preset
                    then \<lparr>rr_resolveCalls = [], rr_promise = Rejected NoPresetFound\<rparr>
                    else
                    (let config = (if length imgs \<noteq> 0
                                   then config0\<lparr>uc_images := Some (ImageList imgs)\<rparr>
                                   else config0)
                     in if \<not> hasLength (uc_images config)
                        then \<lparr>rr_resolveCalls = [], rr_promise = Rejected NoImagesProvided\<rparr>
                        else
                          (let useOverrideAssets =
                                 (if cli_override cliOptions = Some False then False
                                  else (case uc_overrideAssets config of None \<Rightarrow> True | Some b \<Rightarrow> b));
                               useManifestIconsEntry =
                                 (if cli_manifest cliOptions = Some False then False
                                  else (case uc_manifestIconsEntry config of
                                          None \<Rightarrow> True | Some b \<Rightarrow> b));
                               useImages =
                                 (case uc_images config of
                                    Some (ImageList xs) \<Rightarrow> xs
                                  | Some (OneImage x) \<Rightarrow> [x]
                                  | None \<Rightarrow> []);
                               calls = map (resolveInstructionsArgs rootDir preset
                                              (uc_headLinkOptions config)) useImages;
                               settings =
                                 \<lparr>rs_useOverrideAssets = useOverrideAssets,
                                  rs_log = ((case uc_logLevel config of None \<Rightarrow> ''info'' | Some l \<Rightarrow> l)
                                            \<noteq> ''silent''),
                                  rs_useManifestIconsEntry = useManifestIconsEntry\<rparr>
                           in \<lparr>rr_resolveCalls = calls,
                               rr_promise = (case downstream calls settings of
                                               None \<Rightarrow> Fulfilled ()
                                             | Some msg \<Rightarrow> Rejected (Failure msg))\<rparr>))))"

section \<open>Notions used to state the properties\<close>

text \<open>
  The descriptors the \<^verbatim>\<open>reduce\<close> does not skip, found with the test and the map update
  of \<open>reducer\<close>.
\<close>

fun keptSizes :: "(int \<rightharpoonup> int) \<Rightarrow> AppleDeviceSize list \<Rightarrow> AppleDeviceSize list" where
  "keptSizes sizesMap [] = []"
| "keptSizes sizesMap (s # ss) =
     (if sizesMap (ads_width s) = Some (ads_height s) then keptSizes sizesMap ss
      else s # keptSizes (sizesMap(ads_width s \<mapsto> ads_height s)) ss)"

text \<open>The declared dimensions of a descriptor, and whether it carries dark resize options.\<close>

definition dims :: "AppleDeviceSize \<Rightarrow> int \<times> int" where
  "dims s = (ads_width s, ads_height s)"

definition hasDark :: "AppleDeviceSize \<Rightarrow> bool" where
  "hasDark sz = (ads_darkResizeOptions sz \<noteq> None)"

text \<open>
  The deduplication as the specification words it, for comparison with the code: a
  running set \<open>seen\<close> of \<open>(width, height)\<close> pairs, and a descriptor is dropped when its
  pair is in the set. The result lists the first descriptor of every distinct pair.
\<close>

fun distinctByDims :: "(int \<times> int) list \<Rightarrow> AppleDeviceSize list \<Rightarrow> AppleDeviceSize list" where
  "distinctByDims seen [] = []"
| "distinctByDims seen (s # ss) =
     (if dims s \<in> set seen then distinctByDims seen ss
      else s # distinctByDims (dims s # seen) ss)"

text \<open>
  A pair recurs after another height of the same width: some descriptor has the
  declared dimensions of an earlier one, and between the two stands a descriptor of the
  same width and a different height. These are the lists on which the code's map from
  width to height has forgotten the earlier pair.
\<close>

definition pairRecursAfterOtherHeight :: "AppleDeviceSize list \<Rightarrow> bool" where
  "pairRecursAfterOtherHeight sizes =
     (\<exists>j < length sizes. \<exists>k < j. \<exists>i < k.
        dims (sizes ! i) = dims (sizes ! j)
        \<and> ads_width (sizes ! k) = ads_width (sizes ! j)
        \<and> ads_height (sizes ! k) \<noteq> ads_height (sizes ! j))"

text \<open>What tells the variants of one expansion apart.\<close>

definition variantKey :: "SplashScreenData \<Rightarrow> bool \<times> bool option \<times> int \<times> int" where
  "variantKey v =
     (ssd_landscape v, ssd_dark v, ads_width (ssd_size v), ads_height (ssd_size v))"

section \<open>Concrete inputs\<close>

text \<open>
  Modelled from the spec: the bodies of \<^verbatim>\<open>createResizeOptions\<close>,
  \<^verbatim>\<open>createPngCompressionOptions\<close> and \<^verbatim>\<open>defaultSplashScreenName\<close> are missing from the
  embedded files. The specification gives the built-in defaults as background white
  (light) and black (dark), overlaid field by field with the options given; it lists no
  compression default and no name format. These instances serve to evaluate the model
  at concrete inputs; the general theorems do not use them.
\<close>

definition specCreateResizeOptions :: "bool \<Rightarrow> ResizeOptions \<Rightarrow> ResizeOptions" where
  "specCreateResizeOptions dark options =
     options\<lparr>ro_background :=
       (case ro_background options of
          None \<Rightarrow> Some (if dark then ''black'' else ''white'')
        | Some b \<Rightarrow> Some b)\<rparr>"

definition specSplashScreenName :: AppleSplashScreenName where
  "specSplashScreenName landscape sz dark =
     (if landscape then ''landscape'' else ''portrait'')
     @ (case dark of None \<Rightarrow> [] | Some d \<Rightarrow> (if d then ''-dark'' else ''-light''))
     @ ''.png''"

definition specExternals :: externals where
  "specExternals =
     \<lparr>createResizeOptions = specCreateResizeOptions,
      createPngCompressionOptions = (\<lambda>options. options),
      defaultSplashScreenName = specSplashScreenName\<rparr>"

text \<open>The descriptor \<^verbatim>\<open>{ width: w, height: h }\<close> and the configuration \<^verbatim>\<open>{ sizes }\<close>.\<close>

definition deviceSize :: "int \<Rightarrow> int \<Rightarrow> AppleDeviceSize" where
  "deviceSize w h =
     \<lparr>ads_width = w, ads_height = h, ads_padding = None, ads_png = None,
      ads_resizeOptions = None, ads_darkResizeOptions = None\<rparr>"

definition splashConfig :: "AppleDeviceSize list \<Rightarrow> AppleSplashScreens" where
  "splashConfig sizes =
     \<lparr>ass_sizes = sizes, ass_padding = None, ass_resizeOptions = None,
      ass_darkResizeOptions = None, ass_linkMediaOptions = None, ass_name = None,
      ass_png = None\<rparr>"

text \<open>An instructions object with no entry yet, and the image assets of a plain run.\<close>

definition emptyInstructions :: "unit ImageAssetsInstructions" where
  "emptyInstructions =
     \<lparr>iai_image = ''logo.svg'', iai_originalName = ''logo.svg'', iai_favicon = [],
      iai_transparent = [], iai_maskable = [], iai_apple = [], iai_appleSplashScreen = []\<rparr>"

definition plainImageAssets :: ImageAssets where
  "plainImageAssets =
     \<lparr>ia_basePath = ''/'', ia_htmlLinks = \<lparr>hl_xhtml = False, hl_includeId = False\<rparr>\<rparr>"

text \<open>
  For \<^verbatim>\<open>run\<close>: no command-line options, and a loaded configuration holding just a
  preset and images.
\<close>

definition noCliOptions :: CliOptions where
  "noCliOptions =
     \<lparr>cli_root = None, cli_config = None, cli_preset = None, cli_override = None,
      cli_manifest = None\<rparr>"

definition userConfig :: "unit presetSetting option \<Rightarrow> images option \<Rightarrow> unit UserConfig" where
  "userConfig preset imgs =
     \<lparr>uc_preset = preset, uc_images = imgs, uc_logLevel = None, uc_overrideAssets = None,
      uc_headLinkOptions = None, uc_manifestIconsEntry = None\<rparr>"

section \<open>The structure of an expansion\<close>

text \<open>
  The fold appends the variants of exactly the descriptors it keeps, in their order.
\<close>

lemma snd_foldl_reducer:
  "snd (foldl (reducer png) (m, acc) sizes) =
     acc @ concat (map (variantsOf png) (keptSizes m sizes))"
proof (induction sizes arbitrary: m acc)
  case Nil
  then show ?case by simp
next
  case (Cons s ss)
  show ?case
  proof (cases "m (ads_width s) = Some (ads_height s)")
    case True
    then have "reducer png (m, acc) s = (m, acc)" by (simp add: reducer_def)
    then show ?thesis using Cons.IH [of m acc] True by simp
  next
    case False
    then have "reducer png (m, acc) s =
        (m(ads_width s \<mapsto> ads_height s), acc @ variantsOf png s)"
      by (simp add: reducer_def)
    then have "snd (foldl (reducer png) (m, acc) (s # ss)) =
        snd (foldl (reducer png) (m(ads_width s \<mapsto> ads_height s), acc @ variantsOf png s) ss)"
      by simp
    also have "\<dots> = (acc @ variantsOf png s) @
        concat (map (variantsOf png) (keptSizes (m(ads_width s \<mapsto> ads_height s)) ss))"
      by (rule Cons.IH)
    finally show ?thesis using False by simp
  qed
qed

lemma splashScreens_concat:
  "splashScreens png sizes = concat (map (variantsOf png) (keptSizes Map.empty sizes))"
  unfolding splashScreens_def by (simp add: snd_foldl_reducer)

lemma keptSizes_subseq: "subseq (keptSizes m sizes) sizes"
  by (induction sizes arbitrary: m) auto

lemma set_keptSizes: "set (keptSizes m sizes) \<subseteq> set sizes"
  by (induction sizes arbitrary: m) auto

lemma emittedVariants_eq:
  "emittedVariants ext u =
     splashScreens (usePng ext u) (map (resolveSize ext u) (ass_sizes u))"
  by (simp add: emittedVariants_def resolveAppleSplashScreens_def resolveConfig_def)

text \<open>
  The code's map and a set of pairs drop the same descriptors unless a pair recurs
  after another height of the same width. The invariant, over the descriptors \<open>pre\<close>
  already visited: the map gives for each width the height of the last of them with
  that width, and \<open>seen\<close> holds their pairs.
\<close>

lemma dims_fst_snd [simp]: "fst (dims s) = ads_width s" "snd (dims s) = ads_height s"
  by (simp_all add: dims_def)

lemma dims_eq: "dims s = (ads_width s, ads_height s)"
  by (simp add: dims_def)

lemma map_of_last_width:
  "map_of (rev (map dims pre)) w = Some h \<Longrightarrow>
     \<exists>k < length pre. dims (pre ! k) = (w, h)
       \<and> (\<forall>l. k < l \<and> l < length pre \<longrightarrow> ads_width (pre ! l) \<noteq> w)"
proof (induction pre rule: rev_induct)
  case Nil
  then show ?case by simp
next
  case (snoc x xs)
  show ?case
  proof (cases "ads_width x = w")
    case True
    then have "h = ads_height x" using snoc.prems by auto
    then have "dims ((xs @ [x]) ! length xs) = (w, h)" using True by (simp add: dims_eq)
    then show ?thesis by (intro exI [of _ "length xs"]) simp
  next
    case False
    then have "map_of (rev (map dims xs)) w = Some h"
      using snoc.prems by simp
    then obtain k where k: "k < length xs" "dims (xs ! k) = (w, h)"
      and later: "\<forall>l. k < l \<and> l < length xs \<longrightarrow> ads_width (xs ! l) \<noteq> w"
      using snoc.IH by blast
    have "\<forall>l. k < l \<and> l < length (xs @ [x]) \<longrightarrow> ads_width ((xs @ [x]) ! l) \<noteq> w"
    proof (intro allI impI)
      fix l
      assume l: "k < l \<and> l < length (xs @ [x])"
      show "ads_width ((xs @ [x]) ! l) \<noteq> w"
      proof (cases "l < length xs")
        case True
        then show ?thesis using later l by (simp add: nth_append)
      next
        case False
        then have "l = length xs" using l by simp
        then show ?thesis using \<open>ads_width x \<noteq> w\<close> by simp
      qed
    qed
    moreover have "dims ((xs @ [x]) ! k) = (w, h)" using k by (simp add: nth_append)
    moreover have "k < length (xs @ [x])" using k by simp
    ultimately show ?thesis by blast
  qed
qed

lemma keptSizes_distinctByDims:
  assumes "\<not> pairRecursAfterOtherHeight (pre @ sizes)"
    and "m = map_of (rev (map dims pre))"
    and "set seen = dims ` set pre"
  shows "keptSizes m sizes = distinctByDims seen sizes"
  using assms
proof (induction sizes arbitrary: pre m seen)
  case Nil
  then show ?case by simp
next
  case (Cons s ss)
  have nr: "\<not> pairRecursAfterOtherHeight ((pre @ [s]) @ ss)"
    using Cons.prems(1) by simp
  have m': "m(ads_width s \<mapsto> ads_height s) = map_of (rev (map dims (pre @ [s])))"
    using Cons.prems(2) by simp
  show ?case
  proof (cases "m (ads_width s) = Some (ads_height s)")
    case True
    then have "map_of (rev (map dims pre)) (ads_width s) = Some (ads_height s)"
      using Cons.prems(2) by simp
    then have "(ads_width s, ads_height s) \<in> set (rev (map dims pre))"
      by (rule map_of_SomeD)
    then have "dims s \<in> dims ` set pre"
      by (simp add: dims_eq)
    then have in_seen: "dims s \<in> set seen"
      using Cons.prems(3) by simp
    have "m = m(ads_width s \<mapsto> ads_height s)"
      using True by (simp add: map_upd_triv)
    then have m_same: "m = map_of (rev (map dims (pre @ [s])))"
      using m' by simp
    have "dims ` set (pre @ [s]) = insert (dims s) (dims ` set pre)" by simp
    then have seen_same: "set seen = dims ` set (pre @ [s])"
      using in_seen Cons.prems(3) by (simp add: insert_absorb)
    have "keptSizes m ss = distinctByDims seen ss"
      by (rule Cons.IH [OF nr m_same seen_same])
    then show ?thesis using True in_seen by simp
  next
    case False
    have notin: "dims s \<notin> set seen"
    proof
      assume "dims s \<in> set seen"
      then have ds: "dims s \<in> dims ` set pre" using Cons.prems(3) by simp
      then obtain a where a: "a \<in> set pre" "dims a = dims s" by auto
      from a(1) obtain i where "i < length pre" "pre ! i = a"
        by (auto simp: in_set_conv_nth)
      then have i: "i < length pre" "dims (pre ! i) = dims s"
        using a(2) by simp_all
      from ds have "fst (dims s) \<in> fst ` (dims ` set pre)" by (rule imageI)
      then have "ads_width s \<in> fst ` set (rev (map dims pre))" by simp
      then have "m (ads_width s) \<noteq> None"
        using Cons.prems(2) by (simp only: map_of_eq_None_iff not_False_eq_True not_not)
      then obtain h where h: "m (ads_width s) = Some h" by auto
      then have hne: "h \<noteq> ads_height s" using False by auto
      obtain k where k: "k < length pre" "dims (pre ! k) = (ads_width s, h)"
        and later: "\<forall>l. k < l \<and> l < length pre \<longrightarrow> ads_width (pre ! l) \<noteq> ads_width s"
        using map_of_last_width h Cons.prems(2) by blast
      have wi: "ads_width (pre ! i) = ads_width s" "ads_height (pre ! i) = ads_height s"
        using i(2) by (simp_all add: dims_eq)
      have wk: "ads_width (pre ! k) = ads_width s" "ads_height (pre ! k) = h"
        using k(2) by (simp_all add: dims_eq)
      have "i \<noteq> k" using wi(2) wk(2) hne by auto
      moreover have "\<not> k < i" using later i(1) wi(1) by blast
      ultimately have ik: "i < k" by simp
      let ?xs = "pre @ s # ss"
      have "length pre < length ?xs" by simp
      moreover have "dims (?xs ! i) = dims (?xs ! length pre)"
        using i(1) i(2) by (simp add: nth_append)
      moreover have "ads_width (?xs ! k) = ads_width (?xs ! length pre)"
        using k(1) wk(1) by (simp add: nth_append)
      moreover have "ads_height (?xs ! k) \<noteq> ads_height (?xs ! length pre)"
        using k(1) wk(2) hne by (simp add: nth_append)
      ultimately have "pairRecursAfterOtherHeight ?xs"
        unfolding pairRecursAfterOtherHeight_def using ik k(1) by blast
      then show False using Cons.prems(1) by simp
    qed
    have seen': "set (dims s # seen) = dims ` set (pre @ [s])"
      using Cons.prems(3) by simp
    have "keptSizes (m(ads_width s \<mapsto> ads_height s)) ss = distinctByDims (dims s # seen) ss"
      by (rule Cons.IH [OF nr m' seen'])
    then show ?thesis using False notin by simp
  qed
qed

lemma keptSizes_empty:
  assumes "\<not> pairRecursAfterOtherHeight sizes"
  shows "keptSizes Map.empty sizes = distinctByDims [] sizes"
  by (rule keptSizes_distinctByDims [where pre = "[]"]) (use assms in simp_all)

subsection \<open>Counting\<close>

lemma length_variantsOf:
  "length (variantsOf png sz) = (if hasDark sz then 4 else 2)"
  by (cases "ads_darkResizeOptions sz") (simp_all add: variantsOf_def hasDark_def Let_def)

lemma length_concat_variantsOf:
  "length (concat (map (variantsOf png) ks)) =
     4 * length (filter hasDark ks) + 2 * length (filter (\<lambda>s. \<not> hasDark s) ks)"
  by (induction ks) (simp_all add: length_variantsOf)

lemma length_distinctByDims:
  "length (distinctByDims seen xs) = card (dims ` set xs - set seen)"
proof (induction xs arbitrary: seen)
  case Nil
  then show ?case by simp
next
  case (Cons s ss)
  show ?case
  proof (cases "dims s \<in> set seen")
    case True
    then have "dims ` set (s # ss) - set seen = dims ` set ss - set seen" by auto
    then show ?thesis using True Cons.IH [of seen] by simp
  next
    case False
    have "dims ` set (s # ss) - set seen = insert (dims s) (dims ` set ss - set (dims s # seen))"
      using False by auto
    moreover have "card (insert (dims s) (dims ` set ss - set (dims s # seen))) =
        Suc (card (dims ` set ss - set (dims s # seen)))"
      by (rule card_insert_disjoint) simp_all
    ultimately have "card (dims ` set (s # ss) - set seen) =
        Suc (card (dims ` set ss - set (dims s # seen)))"
      by (simp only:)
    then show ?thesis using False Cons.IH [of "dims s # seen"] by simp
  qed
qed

subsection \<open>The cascade of one descriptor\<close>

lemma resolveSize_dims [simp]:
  "ads_width (resolveSize ext u sz) = ads_width sz"
  "ads_height (resolveSize ext u sz) = ads_height sz"
  by (simp_all add: resolveSize_def fillDefaults_def Let_def)

lemma resolveSize_fields:
  "ads_padding (resolveSize ext u sz) =
     Some (case ads_padding sz of Some p \<Rightarrow> p | None \<Rightarrow> usePadding u)"
  "ads_png (resolveSize ext u sz) =
     Some (case ads_png sz of Some p \<Rightarrow> p | None \<Rightarrow> usePng ext u)"
  "ads_resizeOptions (resolveSize ext u sz) =
     Some (case ads_resizeOptions sz of Some r \<Rightarrow> r | None \<Rightarrow> useLightResizeOptions ext u)"
  "ads_darkResizeOptions (resolveSize ext u sz) =
     Some (case ads_darkResizeOptions sz of Some r \<Rightarrow> r | None \<Rightarrow> useDarkResizeOptions ext u)"
  by (simp_all add: resolveSize_def fillDefaults_def Let_def split: option.splits)

lemma distinctByDims_map:
  "(\<And>s. dims (f s) = dims s) \<Longrightarrow>
     distinctByDims seen (map f xs) = map f (distinctByDims seen xs)"
  by (induction xs arbitrary: seen) simp_all

lemma filter_hasDark_resolved:
  "filter hasDark (map (resolveSize ext u) xs) = map (resolveSize ext u) xs"
  by (induction xs) (simp_all add: hasDark_def resolveSize_fields)

lemma filter_noDark_resolved:
  "filter (\<lambda>s. \<not> hasDark s) (map (resolveSize ext u) xs) = []"
  by (induction xs) (simp_all add: hasDark_def resolveSize_fields)

lemma pairRecursAfterOtherHeight_resolved:
  "pairRecursAfterOtherHeight (map (resolveSize ext u) xs) = pairRecursAfterOtherHeight xs"
  by (simp add: pairRecursAfterOtherHeight_def dims_eq cong: conj_cong)

lemma length_splashScreens:
  assumes "\<not> pairRecursAfterOtherHeight sizes"
  shows "length (splashScreens png sizes) =
      4 * length (filter hasDark (distinctByDims [] sizes))
    + 2 * length (filter (\<lambda>s. \<not> hasDark s) (distinctByDims [] sizes))"
  by (simp add: splashScreens_concat keptSizes_empty [OF assms] length_concat_variantsOf)

lemma length_emittedVariants:
  assumes "\<not> pairRecursAfterOtherHeight (ass_sizes u)"
  shows "length (emittedVariants ext u) = 4 * card (dims ` set (ass_sizes u))"
proof -
  have w: "\<not> pairRecursAfterOtherHeight (map (resolveSize ext u) (ass_sizes u))"
    using assms by (simp add: pairRecursAfterOtherHeight_resolved)
  have d: "distinctByDims [] (map (resolveSize ext u) (ass_sizes u)) =
      map (resolveSize ext u) (distinctByDims [] (ass_sizes u))"
    by (rule distinctByDims_map) (simp add: dims_def)
  have "length (emittedVariants ext u) =
      4 * length (filter hasDark (map (resolveSize ext u) (distinctByDims [] (ass_sizes u))))
    + 2 * length (filter (\<lambda>s. \<not> hasDark s)
            (map (resolveSize ext u) (distinctByDims [] (ass_sizes u))))"
    unfolding emittedVariants_eq length_splashScreens [OF w] d ..
  also have "\<dots> = 4 * length (distinctByDims [] (ass_sizes u))"
    by (simp add: filter_hasDark_resolved filter_noDark_resolved)
  finally show ?thesis by (simp add: length_distinctByDims)
qed

section \<open>Deduplication and the number of variants\<close>

text \<open>
  C1. The claim: at most one descriptor per declared (width, height) pair is expanded,
  every later descriptor with a pair already expanded being skipped. The code does not
  do this: its \<^verbatim>\<open>sizesMap\<close> remembers one height per width, so a pair is forgotten as
  soon as a descriptor of the same width and another height has been expanded. For the
  sizes 320x480, 320x568, 320x480 the third descriptor is expanded again, and the
  expansion holds each variant of 320x480 twice.
\<close>

theorem C1_repeated_pair_expanded_again:
  "map variantKey
     (emittedVariants specExternals
        (splashConfig [deviceSize 320 480, deviceSize 320 568, deviceSize 320 480])) =
   [(False, Some False, 320, 480), (True, Some False, 480, 320),
    (False, Some True, 320, 480), (True, Some True, 480, 320),
    (False, Some False, 320, 568), (True, Some False, 568, 320),
    (False, Some True, 320, 568), (True, Some True, 568, 320),
    (False, Some False, 320, 480), (True, Some False, 480, 320),
    (False, Some True, 320, 480), (True, Some True, 480, 320)]"
  by (simp add: emittedVariants_eq splashScreens_def reducer_def variantsOf_def Let_def
      variantKey_def splashConfig_def deviceSize_def resolveSize_def fillDefaults_def
      landscapeSize_def landscapeDarkSize_def)

text \<open>
  C2, as stated, fails: the claim counts two variants for a descriptor of the
  configuration that has no dark resize options of its own, but the cascade gives such
  a descriptor the preset-level dark resize options before the expansion, so it yields
  four. Two descriptors, of which only the second has dark resize options: the claim's
  count is 6, the expansion has 8 variants.
\<close>

theorem C2_counterexample:
  "length (emittedVariants specExternals
             (splashConfig [deviceSize 640 1136,
                (deviceSize 750 1334)\<lparr>ads_darkResizeOptions := Some emptyResizeOptions\<rparr>])) = 8
   \<and> 4 * length (filter hasDark (distinctByDims []
             [deviceSize 640 1136,
              (deviceSize 750 1334)\<lparr>ads_darkResizeOptions := Some emptyResizeOptions\<rparr>]))
     + 2 * length (filter (\<lambda>s. \<not> hasDark s) (distinctByDims []
             [deviceSize 640 1136,
              (deviceSize 750 1334)\<lparr>ads_darkResizeOptions := Some emptyResizeOptions\<rparr>])) = 6"
  by (simp add: emittedVariants_eq splashScreens_def reducer_def variantsOf_def Let_def
      splashConfig_def deviceSize_def resolveSize_def fillDefaults_def hasDark_def dims_def)

text \<open>
  C2, amended. For a list of descriptors in which no pair recurs after another height
  of the same width (the lists with such a recurrence are the subject of C1 and are
  left open here):
  \<^item> the expander emits four variants for the first descriptor of each distinct pair
    that has dark resize options when it is expanded, and two for each that has none;
  \<^item> through the exported function every descriptor has dark resize options when it is
    expanded, so a configuration yields four variants per distinct pair;
  \<^item> a descriptor that reaches the expander without dark resize options yields exactly
    two variants, both with \<open>dark\<close> undefined.
\<close>

theorem C2_variant_count:
  "(\<not> pairRecursAfterOtherHeight sizes \<longrightarrow>
      length (splashScreens png sizes) =
        4 * length (filter hasDark (distinctByDims [] sizes))
      + 2 * length (filter (\<lambda>s. \<not> hasDark s) (distinctByDims [] sizes)))
   \<and> (\<not> pairRecursAfterOtherHeight (ass_sizes u) \<longrightarrow>
        length (emittedVariants ext u) = 4 * card (dims ` set (ass_sizes u)))
   \<and> (\<not> hasDark sz \<longrightarrow>
        map (\<lambda>v. (ssd_landscape v, ssd_dark v)) (variantsOf png sz) =
          [(False, None), (True, None)])"
proof (intro conjI impI)
  assume "\<not> pairRecursAfterOtherHeight sizes"
  then show "length (splashScreens png sizes) =
        4 * length (filter hasDark (distinctByDims [] sizes))
      + 2 * length (filter (\<lambda>s. \<not> hasDark s) (distinctByDims [] sizes))"
    by (rule length_splashScreens)
next
  assume "\<not> pairRecursAfterOtherHeight (ass_sizes u)"
  then show "length (emittedVariants ext u) = 4 * card (dims ` set (ass_sizes u))"
    by (rule length_emittedVariants)
next
  assume "\<not> hasDark sz"
  then show "map (\<lambda>v. (ssd_landscape v, ssd_dark v)) (variantsOf png sz) =
      [(False, None), (True, None)]"
    by (simp add: variantsOf_def hasDark_def Let_def)
qed

theorem C2_variant_count_witness:
  "\<not> pairRecursAfterOtherHeight [deviceSize 1242 2688,
       (deviceSize 1242 2208)\<lparr>ads_darkResizeOptions := Some emptyResizeOptions\<rparr>,
       deviceSize 1242 2208]
   \<and> length (splashScreens emptyPngOptions [deviceSize 1242 2688,
       (deviceSize 1242 2208)\<lparr>ads_darkResizeOptions := Some emptyResizeOptions\<rparr>,
       deviceSize 1242 2208]) = 6
   \<and> length (emittedVariants specExternals (splashConfig [deviceSize 1242 2688,
       (deviceSize 1242 2208)\<lparr>ads_darkResizeOptions := Some emptyResizeOptions\<rparr>,
       deviceSize 1242 2208])) = 8
   \<and> \<not> hasDark (deviceSize 1242 2688)
   \<and> map (\<lambda>v. (ssd_landscape v, ssd_dark v)) (variantsOf emptyPngOptions (deviceSize 1242 2688)) =
       [(False, None), (True, None)]"
proof -
  let ?sizes = "[deviceSize 1242 2688,
       (deviceSize 1242 2208)\<lparr>ads_darkResizeOptions := Some emptyResizeOptions\<rparr>,
       deviceSize 1242 2208]"
  have w: "\<not> pairRecursAfterOtherHeight ?sizes"
    by (simp add: pairRecursAfterOtherHeight_def dims_eq deviceSize_def Ex_less_Suc
        numeral_3_eq_3)
  have w': "\<not> pairRecursAfterOtherHeight (ass_sizes (splashConfig ?sizes))"
    using w by (simp add: splashConfig_def)
  have n: "\<not> hasDark (deviceSize 1242 2688)"
    by (simp add: hasDark_def deviceSize_def)
  have c: "card (dims ` set (ass_sizes (splashConfig ?sizes))) = 2"
    by (simp add: splashConfig_def dims_def deviceSize_def card_insert_if)
  have d: "4 * length (filter hasDark (distinctByDims [] ?sizes))
      + 2 * length (filter (\<lambda>s. \<not> hasDark s) (distinctByDims [] ?sizes)) = 6"
    by (simp add: hasDark_def dims_def deviceSize_def)
  note t = C2_variant_count [of ?sizes emptyPngOptions "splashConfig ?sizes" specExternals
      "deviceSize 1242 2688"]
  from t w have "length (splashScreens emptyPngOptions ?sizes) = 6" using d by simp
  moreover from t w' have "length (emittedVariants specExternals (splashConfig ?sizes)) = 8"
    using c by simp
  moreover from t n have "map (\<lambda>v. (ssd_landscape v, ssd_dark v))
      (variantsOf emptyPngOptions (deviceSize 1242 2688)) = [(False, None), (True, None)]"
    by simp
  ultimately show ?thesis using w n by simp
qed

section \<open>The order of the variants\<close>

text \<open>
  C6. The variants are emitted descriptor by descriptor, in the order of the input list
  (the expansion is the concatenation of the groups of the descriptors that are not
  skipped, and these form a subsequence of the input), and inside a group in the order
  portrait-light, landscape-light and, when the descriptor has dark resize options,
  portrait-dark, landscape-dark. The light variants of a descriptor with dark resize
  options have \<open>dark = false\<close>, those of a descriptor without have \<open>dark\<close> undefined.
\<close>

theorem C6_variant_order:
  "splashScreens png sizes = concat (map (variantsOf png) (keptSizes Map.empty sizes))
   \<and> subseq (keptSizes Map.empty sizes) sizes
   \<and> map (\<lambda>v. (ssd_landscape v, ssd_dark v)) (variantsOf png sz) =
       (if hasDark sz
        then [(False, Some False), (True, Some False), (False, Some True), (True, Some True)]
        else [(False, None), (True, None)])"
proof (intro conjI)
  show "splashScreens png sizes = concat (map (variantsOf png) (keptSizes Map.empty sizes))"
    by (rule splashScreens_concat)
  show "subseq (keptSizes Map.empty sizes) sizes"
    by (rule keptSizes_subseq)
  show "map (\<lambda>v. (ssd_landscape v, ssd_dark v)) (variantsOf png sz) =
       (if hasDark sz
        then [(False, Some False), (True, Some False), (False, Some True), (True, Some True)]
        else [(False, None), (True, None)])"
    by (cases "ads_darkResizeOptions sz") (simp_all add: variantsOf_def hasDark_def Let_def)
qed

theorem C6_variant_order_witness:
  "map variantKey (splashScreens emptyPngOptions
      [deviceSize 320 480,
       (deviceSize 640 1136)\<lparr>ads_darkResizeOptions := Some emptyResizeOptions\<rparr>]) =
   [(False, None, 320, 480), (True, None, 480, 320),
    (False, Some False, 640, 1136), (True, Some False, 1136, 640),
    (False, Some True, 640, 1136), (True, Some True, 1136, 640)]"
proof -
  let ?a = "deviceSize 320 480"
  let ?b = "(deviceSize 640 1136)\<lparr>ads_darkResizeOptions := Some emptyResizeOptions\<rparr>"
  have k: "keptSizes Map.empty [?a, ?b] = [?a, ?b]"
    by (simp add: deviceSize_def)
  have "splashScreens emptyPngOptions [?a, ?b] =
      concat (map (variantsOf emptyPngOptions) (keptSizes Map.empty [?a, ?b]))"
    using C6_variant_order [of emptyPngOptions "[?a, ?b]" ?a] by simp
  then have "splashScreens emptyPngOptions [?a, ?b] =
      variantsOf emptyPngOptions ?a @ variantsOf emptyPngOptions ?b"
    by (simp only: k) simp
  then show ?thesis
    by (simp add: variantsOf_def Let_def variantKey_def deviceSize_def landscapeSize_def
        landscapeDarkSize_def)
qed

section \<open>The option cascade\<close>

text \<open>
  C3, as stated, fails: the per-size layer is not merged field by field. A size whose
  resize options set only \<open>width\<close> keeps them as they are, and inherits no \<open>height\<close>
  from the preset-level resize options, which here set it to 200.
\<close>

theorem C3_counterexample:
  "map_option ro_height
     (ads_resizeOptions
        (resolveSize specExternals
           ((splashConfig [])\<lparr>ass_resizeOptions := Some (emptyResizeOptions\<lparr>ro_height := Some 200\<rparr>)\<rparr>)
           ((deviceSize 320 480)\<lparr>ads_resizeOptions := Some (emptyResizeOptions\<lparr>ro_width := Some 100\<rparr>)\<rparr>)))
     = Some None
   \<and> ro_height
       (useLightResizeOptions specExternals
          ((splashConfig [])\<lparr>ass_resizeOptions := Some (emptyResizeOptions\<lparr>ro_height := Some 200\<rparr>)\<rparr>))
     = Some 200"
  by (simp add: resolveSize_def fillDefaults_def Let_def deviceSize_def splashConfig_def
      useLightResizeOptions_def specExternals_def specCreateResizeOptions_def
      emptyResizeOptions_def)

text \<open>
  C3, amended. For each of the four option kinds the cascade is record by record at the
  per-size layer: a descriptor that has the option keeps its own value whole, and a
  descriptor that lacks it gets the preset-level value, which is
  \<^item> for the padding, the configuration's padding, or 0.3 when it has none;
  \<^item> for the light and the dark resize options, what \<^verbatim>\<open>createResizeOptions\<close> makes of the
    configuration's resize options of that kind (of \<^verbatim>\<open>{}\<close> when it has none);
  \<^item> for the PNG options, what \<^verbatim>\<open>createPngCompressionOptions\<close> makes of the
    configuration's PNG options (of \<^verbatim>\<open>{}\<close> when it has none).
  After the cascade all four are defined, and the declared dimensions are unchanged.
\<close>

theorem C3_cascade_record_by_record:
  "ads_padding (resolveSize ext u sz) =
     Some (case ads_padding sz of
             Some p \<Rightarrow> p
           | None \<Rightarrow> (case ass_padding u of Some p \<Rightarrow> p | None \<Rightarrow> 3 / 10))
   \<and> ads_resizeOptions (resolveSize ext u sz) =
     Some (case ads_resizeOptions sz of
             Some r \<Rightarrow> r
           | None \<Rightarrow> createResizeOptions ext False
                       (case ass_resizeOptions u of Some r \<Rightarrow> r | None \<Rightarrow> emptyResizeOptions))
   \<and> ads_darkResizeOptions (resolveSize ext u sz) =
     Some (case ads_darkResizeOptions sz of
             Some r \<Rightarrow> r
           | None \<Rightarrow> createResizeOptions ext True
                       (case ass_darkResizeOptions u of Some r \<Rightarrow> r | None \<Rightarrow> emptyResizeOptions))
   \<and> ads_png (resolveSize ext u sz) =
     Some (case ads_png sz of
             Some p \<Rightarrow> p
           | None \<Rightarrow> createPngCompressionOptions ext
                       (case ass_png u of Some p \<Rightarrow> p | None \<Rightarrow> emptyPngOptions))
   \<and> ads_width (resolveSize ext u sz) = ads_width sz
   \<and> ads_height (resolveSize ext u sz) = ads_height sz"
  by (simp add: resolveSize_fields usePadding_def useLightResizeOptions_def
      useDarkResizeOptions_def usePng_def split: option.splits)

theorem C3_cascade_record_by_record_witness:
  "ads_resizeOptions
     (resolveSize specExternals
        ((splashConfig [])\<lparr>ass_resizeOptions := Some (emptyResizeOptions\<lparr>ro_height := Some 200\<rparr>)\<rparr>)
        ((deviceSize 320 480)\<lparr>ads_resizeOptions := Some (emptyResizeOptions\<lparr>ro_width := Some 100\<rparr>)\<rparr>))
     = Some (emptyResizeOptions\<lparr>ro_width := Some 100\<rparr>)
   \<and> ads_resizeOptions
     (resolveSize specExternals
        ((splashConfig [])\<lparr>ass_resizeOptions := Some (emptyResizeOptions\<lparr>ro_height := Some 200\<rparr>)\<rparr>)
        (deviceSize 320 480))
     = Some (emptyResizeOptions\<lparr>ro_height := Some 200, ro_background := Some ''white''\<rparr>)
   \<and> ads_padding
     (resolveSize specExternals
        ((splashConfig [])\<lparr>ass_resizeOptions := Some (emptyResizeOptions\<lparr>ro_height := Some 200\<rparr>)\<rparr>)
        (deviceSize 320 480))
     = Some (3 / 10)"
  using
    C3_cascade_record_by_record [of specExternals
      "(splashConfig [])\<lparr>ass_resizeOptions := Some (emptyResizeOptions\<lparr>ro_height := Some 200\<rparr>)\<rparr>"
      "(deviceSize 320 480)\<lparr>ads_resizeOptions := Some (emptyResizeOptions\<lparr>ro_width := Some 100\<rparr>)\<rparr>"]
    C3_cascade_record_by_record [of specExternals
      "(splashConfig [])\<lparr>ass_resizeOptions := Some (emptyResizeOptions\<lparr>ro_height := Some 200\<rparr>)\<rparr>"
      "deviceSize 320 480"]
  by (simp add: deviceSize_def splashConfig_def specExternals_def specCreateResizeOptions_def
      emptyResizeOptions_def)

section \<open>Landscape variants\<close>

text \<open>
  C5. For every descriptor, the landscape variant follows the portrait variant, its
  size has the portrait size's width and height exchanged, and its resize options are
  the portrait variant's resize options with \<open>width\<close> and \<open>height\<close> exchanged and every
  other field as it was (resize options left undefined are read as the empty object,
  as the code reads them). When the descriptor has dark resize options \<open>d\<close>, the same
  holds of the dark pair, whose portrait variant has the resize options \<open>d\<close>. The record
  update in the statement changes \<open>ro_width\<close> and \<open>ro_height\<close> only.
\<close>

theorem C5_landscape_transposes:
  "(let vs = variantsOf png sz; p = vs ! 0; l = vs ! 1 in
      2 \<le> length vs \<and> ssd_size p = sz
      \<and> \<not> ssd_landscape p \<and> ssd_landscape l
      \<and> ssd_resizeOptions p = ads_resizeOptions sz
      \<and> ads_width (ssd_size l) = ads_height (ssd_size p)
      \<and> ads_height (ssd_size l) = ads_width (ssd_size p)
      \<and> ssd_resizeOptions l =
          Some ((orEmpty (ssd_resizeOptions p))
                  \<lparr>ro_width := ro_height (orEmpty (ssd_resizeOptions p)),
                   ro_height := ro_width (orEmpty (ssd_resizeOptions p))\<rparr>)
      \<and> ads_resizeOptions (ssd_size l) = ssd_resizeOptions l)
   \<and> (\<forall>d. ads_darkResizeOptions sz = Some d \<longrightarrow>
        (let vs = variantsOf png sz; p = vs ! 2; l = vs ! 3 in
           length vs = 4 \<and> ssd_size p = sz
           \<and> \<not> ssd_landscape p \<and> ssd_landscape l
           \<and> ssd_dark p = Some True \<and> ssd_dark l = Some True
           \<and> ssd_resizeOptions p = Some d
           \<and> ads_width (ssd_size l) = ads_height (ssd_size p)
           \<and> ads_height (ssd_size l) = ads_width (ssd_size p)
           \<and> ssd_resizeOptions l = Some (d\<lparr>ro_width := ro_height d, ro_height := ro_width d\<rparr>)
           \<and> ads_resizeOptions (ssd_size l) = ssd_resizeOptions l))"
  by (cases "ads_darkResizeOptions sz")
     (simp_all add: variantsOf_def Let_def landscapeSize_def landscapeDarkSize_def
        landscapeOf_def)

theorem C5_landscape_transposes_witness:
  "map (\<lambda>v. (variantKey v, map_option (\<lambda>r. (ro_width r, ro_height r, ro_fit r)) (ssd_resizeOptions v)))
     (variantsOf emptyPngOptions
        ((deviceSize 320 480)
           \<lparr>ads_resizeOptions :=
              Some (emptyResizeOptions\<lparr>ro_width := Some 300, ro_height := Some 400,
                                        ro_fit := Some ''contain''\<rparr>),
            ads_darkResizeOptions :=
              Some (emptyResizeOptions\<lparr>ro_width := Some 200, ro_fit := Some ''cover''\<rparr>)\<rparr>)) =
   [((False, Some False, 320, 480), Some (Some 300, Some 400, Some ''contain'')),
    ((True, Some False, 480, 320), Some (Some 400, Some 300, Some ''contain'')),
    ((False, Some True, 320, 480), Some (Some 200, None, Some ''cover'')),
    ((True, Some True, 480, 320), Some (None, Some 200, Some ''cover''))]"
proof -
  let ?sz = "(deviceSize 320 480)
           \<lparr>ads_resizeOptions :=
              Some (emptyResizeOptions\<lparr>ro_width := Some 300, ro_height := Some 400,
                                        ro_fit := Some ''contain''\<rparr>),
            ads_darkResizeOptions :=
              Some (emptyResizeOptions\<lparr>ro_width := Some 200, ro_fit := Some ''cover''\<rparr>)\<rparr>"
  have d: "ads_darkResizeOptions ?sz =
      Some (emptyResizeOptions\<lparr>ro_width := Some 200, ro_fit := Some ''cover''\<rparr>)"
    by (simp add: deviceSize_def)
  have len: "length (variantsOf emptyPngOptions ?sz) = 4"
    using C5_landscape_transposes [of emptyPngOptions ?sz] d by (simp add: Let_def)
  then show ?thesis
    by (simp add: variantsOf_def Let_def variantKey_def deviceSize_def landscapeSize_def
        landscapeDarkSize_def landscapeOf_def emptyResizeOptions_def orEmpty_def)
qed

section \<open>The asset entries\<close>

text \<open>
  The loop touches one property of the instructions object, and every entry it stores
  is the entry of one of the variants it runs over.
\<close>

lemma foldl_assignAsset_frame:
  "foldl (assignAsset img imageAssets r) instructions vs =
     instructions\<lparr>iai_appleSplashScreen :=
       iai_appleSplashScreen (foldl (assignAsset img imageAssets r) instructions vs)\<rparr>"
proof (induction vs arbitrary: instructions)
  case Nil
  then show ?case by simp
next
  case (Cons v vs)
  have "foldl (assignAsset img imageAssets r) instructions (v # vs) =
      foldl (assignAsset img imageAssets r) (assignAsset img imageAssets r instructions v) vs"
    by simp
  also have "\<dots> = (assignAsset img imageAssets r instructions v)\<lparr>iai_appleSplashScreen :=
      iai_appleSplashScreen
        (foldl (assignAsset img imageAssets r) (assignAsset img imageAssets r instructions v) vs)\<rparr>"
    by (rule Cons.IH)
  also have "\<dots> = instructions\<lparr>iai_appleSplashScreen :=
      iai_appleSplashScreen
        (foldl (assignAsset img imageAssets r) (assignAsset img imageAssets r instructions v) vs)\<rparr>"
    by (simp add: assignAsset_def Let_def)
  finally show ?case by simp
qed

text \<open>What an assignment does to the set of entries and to their number.\<close>

lemma set_update_subset: "set (AList.update k v xs) \<subseteq> insert (k, v) (set xs)"
  by (induction xs) auto

lemma set_insertProperty: "set (insertProperty k v xs) = insert (k, v) (set xs)"
  by (induction xs) auto

lemma length_insertProperty: "length (insertProperty k v xs) = Suc (length xs)"
  by (induction xs) auto

lemma set_assignProperty_subset: "set (assignProperty k v xs) \<subseteq> insert (k, v) (set xs)"
  using set_update_subset [of k v xs]
  by (auto simp: assignProperty_def set_insertProperty)

lemma set_assignProperty_fresh:
  "k \<notin> fst ` set xs \<Longrightarrow> k \<noteq> ''__proto__'' \<Longrightarrow>
     set (assignProperty k v xs) = insert (k, v) (set xs)"
  by (simp add: assignProperty_def set_insertProperty)

lemma length_assignProperty_fresh:
  "k \<notin> fst ` set xs \<Longrightarrow> k \<noteq> ''__proto__'' \<Longrightarrow>
     length (assignProperty k v xs) = Suc (length xs)"
  by (simp add: assignProperty_def length_insertProperty)

lemma foldl_assignAsset_fresh:
  assumes "distinct (map (\<lambda>v. asset_url (splashScreenAsset img imageAssets r v)) vs)"
    and "\<forall>v \<in> set vs. asset_url (splashScreenAsset img imageAssets r v)
           \<notin> fst ` set (iai_appleSplashScreen instructions)
         \<and> asset_url (splashScreenAsset img imageAssets r v) \<noteq> ''__proto__''"
  shows "set (iai_appleSplashScreen (foldl (assignAsset img imageAssets r) instructions vs)) =
     set (iai_appleSplashScreen instructions)
     \<union> (\<lambda>v. (asset_url (splashScreenAsset img imageAssets r v),
               splashScreenAsset img imageAssets r v)) ` set vs
   \<and> length (iai_appleSplashScreen (foldl (assignAsset img imageAssets r) instructions vs)) =
     length (iai_appleSplashScreen instructions) + length vs"
  using assms
proof (induction vs arbitrary: instructions)
  case Nil
  then show ?case by simp
next
  case (Cons v vs)
  let ?A = "splashScreenAsset img imageAssets r"
  let ?i = "assignAsset img imageAssets r instructions v"
  have fresh: "asset_url (?A v) \<notin> fst ` set (iai_appleSplashScreen instructions)"
    and plain: "asset_url (?A v) \<noteq> ''__proto__''"
    using Cons.prems(2) by simp_all
  have step: "set (iai_appleSplashScreen ?i) =
      insert (asset_url (?A v), ?A v) (set (iai_appleSplashScreen instructions))"
    using fresh plain by (simp add: assignAsset_def Let_def set_assignProperty_fresh)
  have len: "length (iai_appleSplashScreen ?i) = Suc (length (iai_appleSplashScreen instructions))"
    using fresh plain by (simp add: assignAsset_def Let_def length_assignProperty_fresh)
  have d: "distinct (map (\<lambda>v. asset_url (?A v)) vs)"
    using Cons.prems(1) by simp
  have f: "\<forall>w \<in> set vs. asset_url (?A w) \<notin> fst ` set (iai_appleSplashScreen ?i)
      \<and> asset_url (?A w) \<noteq> ''__proto__''"
  proof
    fix w
    assume w: "w \<in> set vs"
    have "asset_url (?A v) \<notin> (\<lambda>v. asset_url (?A v)) ` set vs"
      using Cons.prems(1) by simp
    moreover have "asset_url (?A w) \<in> (\<lambda>v. asset_url (?A v)) ` set vs"
      using w by (rule imageI)
    ultimately have "asset_url (?A w) \<noteq> asset_url (?A v)"
      by metis
    moreover have "asset_url (?A w) \<notin> fst ` set (iai_appleSplashScreen instructions)"
      and "asset_url (?A w) \<noteq> ''__proto__''"
      using Cons.prems(2) w by simp_all
    ultimately show "asset_url (?A w) \<notin> fst ` set (iai_appleSplashScreen ?i)
        \<and> asset_url (?A w) \<noteq> ''__proto__''"
      by (simp add: step)
  qed
  have "set (iai_appleSplashScreen (foldl (assignAsset img imageAssets r) ?i vs)) =
      set (iai_appleSplashScreen ?i) \<union> (\<lambda>v. (asset_url (?A v), ?A v)) ` set vs
    \<and> length (iai_appleSplashScreen (foldl (assignAsset img imageAssets r) ?i vs)) =
      length (iai_appleSplashScreen ?i) + length vs"
    by (rule Cons.IH [OF d f])
  then show ?case by (simp add: step len)
qed

lemma foldl_assignAsset_entries:
  "set (iai_appleSplashScreen (foldl (assignAsset img imageAssets r) instructions vs)) \<subseteq>
     set (iai_appleSplashScreen instructions)
     \<union> (\<lambda>v. (asset_url (splashScreenAsset img imageAssets r v),
               splashScreenAsset img imageAssets r v)) ` set vs"
proof (induction vs arbitrary: instructions)
  case Nil
  then show ?case by simp
next
  case (Cons v vs)
  let ?A = "splashScreenAsset img imageAssets r"
  let ?i = "assignAsset img imageAssets r instructions v"
  have step: "set (iai_appleSplashScreen ?i) \<subseteq>
      insert (asset_url (?A v), ?A v) (set (iai_appleSplashScreen instructions))"
    by (simp add: assignAsset_def Let_def set_assignProperty_subset)
  have "set (iai_appleSplashScreen (foldl (assignAsset img imageAssets r) ?i vs)) \<subseteq>
      set (iai_appleSplashScreen ?i) \<union> (\<lambda>v. (asset_url (?A v), ?A v)) ` set vs"
    by (rule Cons.IH)
  then show ?case using step by auto
qed

lemma resolve_entries:
  "set (iai_appleSplashScreen
          (fst (resolveAppleSplashScreensInstructions ext img imageAssets instructions (Some u)))) \<subseteq>
     set (iai_appleSplashScreen instructions)
     \<union> (\<lambda>v. (asset_url (splashScreenAsset img imageAssets (resolveConfig ext u) v),
               splashScreenAsset img imageAssets (resolveConfig ext u) v))
         ` set (emittedVariants ext u)"
proof (cases "ras_sizes (resolveConfig ext u) = []")
  case True
  then show ?thesis
    by (simp add: resolveAppleSplashScreensInstructions_def resolveAppleSplashScreens_def)
next
  case False
  then have "fst (resolveAppleSplashScreensInstructions ext img imageAssets instructions (Some u)) =
      foldl (assignAsset img imageAssets (resolveConfig ext u)) instructions
        (emittedVariants ext u)"
    by (simp add: resolveAppleSplashScreensInstructions_def resolveAppleSplashScreens_def
        emittedVariants_def)
  then show ?thesis by (simp only:) (rule foldl_assignAsset_entries)
qed

text \<open>
  C7. For every variant, the resize options passed to the deferred image producer are
  the variant's resize options with the background set: to the variant's own
  background when its resize options have one, and otherwise to \<^verbatim>\<open>'black'\<close> when
  the variant is dark (\<open>dark = true\<close>) and to \<^verbatim>\<open>'white'\<close> when \<open>dark\<close> is \<open>false\<close> or
  undefined. This holds of the entry built for any variant; and every entry found in
  \<^verbatim>\<open>instructions.appleSplashScreen\<close> after the call that was not there before is the
  entry built for an emitted variant, stored under its URL.
\<close>

theorem C7_producer_background:
  "ro_background (gma_resizeOptions (asset_buffer (splashScreenAsset img imageAssets r v))) =
     Some (case ssd_resizeOptions v of
             None \<Rightarrow> (if ssd_dark v = Some True then ''black'' else ''white'')
           | Some ro \<Rightarrow>
               (case ro_background ro of
                  Some b \<Rightarrow> b
                | None \<Rightarrow> (if ssd_dark v = Some True then ''black'' else ''white'')))
   \<and> gma_resizeOptions (asset_buffer (splashScreenAsset img imageAssets r v)) =
       (orEmpty (ssd_resizeOptions v))
         \<lparr>ro_background :=
            ro_background (gma_resizeOptions (asset_buffer (splashScreenAsset img imageAssets r v)))\<rparr>
   \<and> (\<forall>entry \<in> set (iai_appleSplashScreen
          (fst (resolveAppleSplashScreensInstructions ext img imageAssets instructions (Some u)))).
        entry \<in> set (iai_appleSplashScreen instructions)
        \<or> (\<exists>w \<in> set (emittedVariants ext u).
             snd entry = splashScreenAsset img imageAssets (resolveConfig ext u) w
             \<and> fst entry = asset_url (snd entry)))"
proof (intro conjI ballI)
  show "ro_background (gma_resizeOptions (asset_buffer (splashScreenAsset img imageAssets r v))) =
     Some (case ssd_resizeOptions v of
             None \<Rightarrow> (if ssd_dark v = Some True then ''black'' else ''white'')
           | Some ro \<Rightarrow>
               (case ro_background ro of
                  Some b \<Rightarrow> b
                | None \<Rightarrow> (if ssd_dark v = Some True then ''black'' else ''white'')))"
    by (simp add: splashScreenAsset_def producerResizeOptions_def Let_def split: option.splits)
  show "gma_resizeOptions (asset_buffer (splashScreenAsset img imageAssets r v)) =
       (orEmpty (ssd_resizeOptions v))
         \<lparr>ro_background :=
            ro_background (gma_resizeOptions (asset_buffer (splashScreenAsset img imageAssets r v)))\<rparr>"
    by (simp add: splashScreenAsset_def producerResizeOptions_def Let_def)
next
  fix entry
  assume "entry \<in> set (iai_appleSplashScreen
      (fst (resolveAppleSplashScreensInstructions ext img imageAssets instructions (Some u))))"
  then have "entry \<in> set (iai_appleSplashScreen instructions)
     \<union> (\<lambda>v. (asset_url (splashScreenAsset img imageAssets (resolveConfig ext u) v),
               splashScreenAsset img imageAssets (resolveConfig ext u) v))
         ` set (emittedVariants ext u)"
    using resolve_entries by blast
  then show "entry \<in> set (iai_appleSplashScreen instructions)
        \<or> (\<exists>w \<in> set (emittedVariants ext u).
             snd entry = splashScreenAsset img imageAssets (resolveConfig ext u) w
             \<and> fst entry = asset_url (snd entry))"
    by auto
qed

theorem C7_producer_background_witness:
  "map (\<lambda>v. (ssd_dark v,
             ro_background (gma_resizeOptions
               (asset_buffer (splashScreenAsset [] plainImageAssets
                  (resolveConfig specExternals (splashConfig [])) v)))))
     (variantsOf emptyPngOptions
        ((deviceSize 320 480)\<lparr>ads_darkResizeOptions := Some emptyResizeOptions\<rparr>)
      @ variantsOf emptyPngOptions
        ((deviceSize 640 1136)
           \<lparr>ads_resizeOptions := Some (emptyResizeOptions\<lparr>ro_background := Some ''red''\<rparr>)\<rparr>)) =
   [(Some False, Some ''white''), (Some False, Some ''white''),
    (Some True, Some ''black''), (Some True, Some ''black''),
    (None, Some ''red''), (None, Some ''red'')]
   \<and> map fst (iai_appleSplashScreen
        (fst (resolveAppleSplashScreensInstructions specExternals [] plainImageAssets
                emptyInstructions (Some (splashConfig [deviceSize 640 1136]))))) =
     [''/portrait-light.png'', ''/landscape-light.png'', ''/portrait-dark.png'',
      ''/landscape-dark.png'']"
proof (rule conjI)
  show "map (\<lambda>v. (ssd_dark v,
             ro_background (gma_resizeOptions
               (asset_buffer (splashScreenAsset [] plainImageAssets
                  (resolveConfig specExternals (splashConfig [])) v)))))
     (variantsOf emptyPngOptions
        ((deviceSize 320 480)\<lparr>ads_darkResizeOptions := Some emptyResizeOptions\<rparr>)
      @ variantsOf emptyPngOptions
        ((deviceSize 640 1136)
           \<lparr>ads_resizeOptions := Some (emptyResizeOptions\<lparr>ro_background := Some ''red''\<rparr>)\<rparr>)) =
   [(Some False, Some ''white''), (Some False, Some ''white''),
    (Some True, Some ''black''), (Some True, Some ''black''),
    (None, Some ''red''), (None, Some ''red'')]"
    by (simp add: C7_producer_background [THEN conjunct1] variantsOf_def Let_def deviceSize_def
        landscapeSize_def landscapeDarkSize_def landscapeOf_def emptyResizeOptions_def
        orEmpty_def)
  show "map fst (iai_appleSplashScreen
        (fst (resolveAppleSplashScreensInstructions specExternals [] plainImageAssets
                emptyInstructions (Some (splashConfig [deviceSize 640 1136]))))) =
     [''/portrait-light.png'', ''/landscape-light.png'', ''/portrait-dark.png'',
      ''/landscape-dark.png'']"
    by (simp add: resolveAppleSplashScreensInstructions_def resolveAppleSplashScreens_def
        resolveConfig_def splashConfig_def deviceSize_def resolveSize_def fillDefaults_def
        specExternals_def specSplashScreenName_def splashScreens_def reducer_def
        variantsOf_def Let_def assignAsset_def splashScreenAsset_def plainImageAssets_def
        emptyInstructions_def landscapeSize_def landscapeDarkSize_def assignProperty_def
        isArrayIndex_def)
qed

text \<open>
  C8. Every emitted variant belongs to a descriptor of the configuration, and every
  variant of a descriptor has the descriptor's own padding when it has one, otherwise
  the configuration's padding when it has one, otherwise 0.3. The entry passes this
  padding on to the producer.
\<close>

theorem C8_padding_cascade:
  "(\<forall>v \<in> set (emittedVariants ext u).
      \<exists>sz \<in> set (ass_sizes u). v \<in> set (variantsOf (usePng ext u) (resolveSize ext u sz)))
   \<and> (\<forall>v \<in> set (variantsOf png (resolveSize ext u sz)).
        ssd_padding v =
          (case ads_padding sz of
             Some p \<Rightarrow> p
           | None \<Rightarrow> (case ass_padding u of Some p \<Rightarrow> p | None \<Rightarrow> 3 / 10))
        \<and> gma_padding (asset_buffer (splashScreenAsset img imageAssets r v)) = ssd_padding v)"
proof (intro conjI ballI)
  fix v
  assume "v \<in> set (emittedVariants ext u)"
  then obtain k where k: "k \<in> set (keptSizes Map.empty (map (resolveSize ext u) (ass_sizes u)))"
    and v: "v \<in> set (variantsOf (usePng ext u) k)"
    by (auto simp: emittedVariants_eq splashScreens_concat)
  from k have "k \<in> set (map (resolveSize ext u) (ass_sizes u))"
    using set_keptSizes by blast
  then obtain sz where "sz \<in> set (ass_sizes u)" "k = resolveSize ext u sz" by auto
  with v show "\<exists>sz \<in> set (ass_sizes u).
      v \<in> set (variantsOf (usePng ext u) (resolveSize ext u sz))"
    by blast
next
  fix v
  assume v: "v \<in> set (variantsOf png (resolveSize ext u sz))"
  have "ssd_padding v =
      (case ads_padding (resolveSize ext u sz) of None \<Rightarrow> 3 / 10 | Some p \<Rightarrow> p)"
    using v by (auto simp: variantsOf_def Let_def split: option.splits)
  then show "ssd_padding v =
      (case ads_padding sz of
         Some p \<Rightarrow> p
       | None \<Rightarrow> (case ass_padding u of Some p \<Rightarrow> p | None \<Rightarrow> 3 / 10))"
    by (simp add: resolveSize_fields usePadding_def split: option.splits)
next
  fix v
  show "gma_padding (asset_buffer (splashScreenAsset img imageAssets r v)) = ssd_padding v"
    by (simp add: splashScreenAsset_def Let_def)
qed

theorem C8_padding_cascade_witness:
  "map ssd_padding
     (emittedVariants specExternals
        ((splashConfig [deviceSize 320 480, (deviceSize 640 1136)\<lparr>ads_padding := Some (1 / 10)\<rparr>])
           \<lparr>ass_padding := Some (1 / 5)\<rparr>)) =
     [1 / 5, 1 / 5, 1 / 5, 1 / 5, 1 / 10, 1 / 10, 1 / 10, 1 / 10]
   \<and> map ssd_padding (emittedVariants specExternals (splashConfig [deviceSize 320 480])) =
     [3 / 10, 3 / 10, 3 / 10, 3 / 10]"
proof -
  let ?u = "(splashConfig [deviceSize 320 480, (deviceSize 640 1136)\<lparr>ads_padding := Some (1 / 10)\<rparr>])
           \<lparr>ass_padding := Some (1 / 5)\<rparr>"
  let ?w = "splashConfig [deviceSize 320 480]"
  let ?png = "usePng specExternals ?u"
  have e: "emittedVariants specExternals ?u =
      variantsOf ?png (resolveSize specExternals ?u (deviceSize 320 480))
      @ variantsOf ?png (resolveSize specExternals ?u
          ((deviceSize 640 1136)\<lparr>ads_padding := Some (1 / 10)\<rparr>))"
    by (simp add: emittedVariants_eq splashScreens_concat splashConfig_def deviceSize_def)
  have e': "emittedVariants specExternals ?w =
      variantsOf (usePng specExternals ?w) (resolveSize specExternals ?w (deviceSize 320 480))"
    by (simp add: emittedVariants_eq splashScreens_concat splashConfig_def deviceSize_def)
  have a: "\<forall>v \<in> set (variantsOf ?png (resolveSize specExternals ?u (deviceSize 320 480))).
      ssd_padding v = 1 / 5"
    using C8_padding_cascade [of specExternals ?u ?png "deviceSize 320 480"]
    by (simp add: splashConfig_def deviceSize_def)
  have b: "\<forall>v \<in> set (variantsOf ?png (resolveSize specExternals ?u
        ((deviceSize 640 1136)\<lparr>ads_padding := Some (1 / 10)\<rparr>))). ssd_padding v = 1 / 10"
    using C8_padding_cascade [of specExternals ?u ?png
        "(deviceSize 640 1136)\<lparr>ads_padding := Some (1 / 10)\<rparr>"]
    by (simp add: splashConfig_def deviceSize_def)
  have c: "\<forall>v \<in> set (variantsOf (usePng specExternals ?w)
        (resolveSize specExternals ?w (deviceSize 320 480))). ssd_padding v = 3 / 10"
    using C8_padding_cascade [of specExternals ?w "usePng specExternals ?w" "deviceSize 320 480"]
    by (simp add: splashConfig_def deviceSize_def)
  have len: "length (variantsOf p (resolveSize x y z)) = 4" for p x y z
    by (simp add: length_variantsOf hasDark_def resolveSize_fields)
  have const: "map ssd_padding xs = replicate (length xs) q"
    if "\<forall>v \<in> set xs. ssd_padding v = q" for xs :: "SplashScreenData list" and q
    using that by (induction xs) simp_all
  show ?thesis
    unfolding e e' map_append const [OF a] const [OF b] const [OF c] len
    by (simp add: numeral_eq_Suc)
qed

section \<open>Frame of the exported function\<close>

text \<open>
  C10. The exported function changes nothing of the instructions object but its
  \<^verbatim>\<open>appleSplashScreen\<close> mapping: the image names, the four other categories and any
  further property are as before. When the configuration argument is absent, or its
  list of sizes is empty, the instructions object is unchanged altogether (and so is
  the configuration).
\<close>

theorem C10_only_appleSplashScreen_changes:
  "(let after = fst (resolveAppleSplashScreensInstructions ext img imageAssets instructions
                       useAppleSplashScreens) in
      after = instructions\<lparr>iai_appleSplashScreen := iai_appleSplashScreen after\<rparr>
      \<and> iai_image after = iai_image instructions
      \<and> iai_originalName after = iai_originalName instructions
      \<and> iai_favicon after = iai_favicon instructions
      \<and> iai_transparent after = iai_transparent instructions
      \<and> iai_maskable after = iai_maskable instructions
      \<and> iai_apple after = iai_apple instructions
      \<and> ImageAssetsInstructions.more after = ImageAssetsInstructions.more instructions)
   \<and> ((useAppleSplashScreens = None
        \<or> (\<exists>u. useAppleSplashScreens = Some u \<and> ass_sizes u = [])) \<longrightarrow>
       resolveAppleSplashScreensInstructions ext img imageAssets instructions
         useAppleSplashScreens = (instructions, useAppleSplashScreens))"
proof -
  let ?res = "resolveAppleSplashScreensInstructions ext img imageAssets instructions
      useAppleSplashScreens"
  have frame: "fst ?res = instructions\<lparr>iai_appleSplashScreen := iai_appleSplashScreen (fst ?res)\<rparr>"
  proof (cases useAppleSplashScreens)
    case None
    then show ?thesis
      by (simp add: resolveAppleSplashScreensInstructions_def resolveAppleSplashScreens_def)
  next
    case (Some u)
    show ?thesis
    proof (cases "ras_sizes (resolveConfig ext u) = []")
      case True
      then show ?thesis using Some
        by (simp add: resolveAppleSplashScreensInstructions_def resolveAppleSplashScreens_def)
    next
      case False
      then have "fst ?res =
          foldl (assignAsset img imageAssets (resolveConfig ext u)) instructions
            (splashScreens (ras_png (resolveConfig ext u)) (ras_sizes (resolveConfig ext u)))"
        using Some
        by (simp add: resolveAppleSplashScreensInstructions_def resolveAppleSplashScreens_def)
      then show ?thesis
        by (simp only:) (rule foldl_assignAsset_frame)
    qed
  qed
  have fields: "iai_image (fst ?res) = iai_image instructions
      \<and> iai_originalName (fst ?res) = iai_originalName instructions
      \<and> iai_favicon (fst ?res) = iai_favicon instructions
      \<and> iai_transparent (fst ?res) = iai_transparent instructions
      \<and> iai_maskable (fst ?res) = iai_maskable instructions
      \<and> iai_apple (fst ?res) = iai_apple instructions
      \<and> ImageAssetsInstructions.more (fst ?res) = ImageAssetsInstructions.more instructions"
  proof -
    define x where "x = iai_appleSplashScreen (fst ?res)"
    have "fst ?res = instructions\<lparr>iai_appleSplashScreen := x\<rparr>"
      unfolding x_def by (rule frame)
    then show ?thesis by simp
  qed
  have unchanged: "?res = (instructions, useAppleSplashScreens)"
    if "useAppleSplashScreens = None \<or> (\<exists>u. useAppleSplashScreens = Some u \<and> ass_sizes u = [])"
    using that
    by (auto simp: resolveAppleSplashScreensInstructions_def resolveAppleSplashScreens_def
        resolveConfig_def)
  show ?thesis
    unfolding Let_def
    by (intro conjI impI; (rule frame | simp only: fields | (rule unchanged, assumption)))
qed

theorem C10_only_appleSplashScreen_changes_witness:
  "resolveAppleSplashScreensInstructions specExternals [] plainImageAssets emptyInstructions None =
     (emptyInstructions, None)
   \<and> resolveAppleSplashScreensInstructions specExternals [] plainImageAssets emptyInstructions
       (Some (splashConfig [])) = (emptyInstructions, Some (splashConfig []))
   \<and> iai_favicon (fst (resolveAppleSplashScreensInstructions specExternals [] plainImageAssets
       (emptyInstructions\<lparr>iai_favicon := [(''/favicon.ico'', ())]\<rparr>)
       (Some (splashConfig [deviceSize 640 1136])))) = [(''/favicon.ico'', ())]"
proof -
  have a: "resolveAppleSplashScreensInstructions specExternals [] plainImageAssets
      emptyInstructions None = (emptyInstructions, None)"
    using C10_only_appleSplashScreen_changes
      [of specExternals "[]" plainImageAssets emptyInstructions None]
    by simp
  have "ass_sizes (splashConfig []) = []" by (simp add: splashConfig_def)
  then have b: "resolveAppleSplashScreensInstructions specExternals [] plainImageAssets
      emptyInstructions (Some (splashConfig [])) = (emptyInstructions, Some (splashConfig []))"
    using C10_only_appleSplashScreen_changes
      [of specExternals "[]" plainImageAssets emptyInstructions "Some (splashConfig [])"]
    by simp
  have c: "iai_favicon (fst (resolveAppleSplashScreensInstructions specExternals [] plainImageAssets
       (emptyInstructions\<lparr>iai_favicon := [(''/favicon.ico'', ())]\<rparr>)
       (Some (splashConfig [deviceSize 640 1136])))) = [(''/favicon.ico'', ())]"
    using C10_only_appleSplashScreen_changes
      [of specExternals "[]" plainImageAssets
        "emptyInstructions\<lparr>iai_favicon := [(''/favicon.ico'', ())]\<rparr>"
        "Some (splashConfig [deviceSize 640 1136])"]
    by (simp add: Let_def)
  from a b c show ?thesis by simp
qed

section \<open>One descriptor, no overrides\<close>

text \<open>
  C4, as stated, fails: the descriptor \<^verbatim>\<open>{ width: 640, height: 1136 }\<close> with no dark
  resize options and no padding does not resolve to two entries. The cascade gives it
  the preset-level dark resize options, so it expands to four variants, and with a
  naming function that tells them apart the instructions hold four entries, the two
  dark ones with the background \<^verbatim>\<open>'black'\<close>.
\<close>

theorem C4_counterexample:
  "map (\<lambda>(url, a). (url, asset_width a, asset_height a, gma_padding (asset_buffer a),
                    ro_background (gma_resizeOptions (asset_buffer a))))
     (iai_appleSplashScreen
        (fst (resolveAppleSplashScreensInstructions specExternals [] plainImageAssets
                emptyInstructions (Some (splashConfig [deviceSize 640 1136]))))) =
   [(''/portrait-light.png'', 640, 1136, 3 / 10, Some ''white''),
    (''/landscape-light.png'', 1136, 640, 3 / 10, Some ''white''),
    (''/portrait-dark.png'', 640, 1136, 3 / 10, Some ''black''),
    (''/landscape-dark.png'', 1136, 640, 3 / 10, Some ''black'')]"
  by (simp add: resolveAppleSplashScreensInstructions_def resolveAppleSplashScreens_def
      resolveConfig_def splashConfig_def deviceSize_def resolveSize_def fillDefaults_def
      usePadding_def usePng_def useLightResizeOptions_def useDarkResizeOptions_def
      specExternals_def specCreateResizeOptions_def specSplashScreenName_def
      splashScreens_def reducer_def variantsOf_def Let_def landscapeSize_def
      landscapeDarkSize_def landscapeOf_def assignAsset_def splashScreenAsset_def
      producerResizeOptions_def plainImageAssets_def emptyInstructions_def
      emptyResizeOptions_def orEmpty_def assignProperty_def isArrayIndex_def)

text \<open>
  C4, amended. For a configuration with the single descriptor
  \<^verbatim>\<open>{ width: 640, height: 1136 }\<close> (no dark resize options, no padding of its own) and no
  preset-level padding, resolution expands four variants: light (\<open>dark = false\<close>) at
  640x1136 with \<open>landscape = false\<close>, light at 1136x640 with \<open>landscape = true\<close>, and
  the same two with \<open>dark = true\<close>. Each has padding 0.3. The background passed to the
  producer is the one of the preset-level resize options of that colour scheme as
  \<^verbatim>\<open>createResizeOptions\<close> returns them, and when they have none, \<^verbatim>\<open>'white'\<close> for the
  light and \<^verbatim>\<open>'black'\<close> for the dark variants. Every entry that resolution adds to
  the instructions is the entry of one of the four variants, stored under its URL;
  and where the four URLs differ, none is in use and none is \<^verbatim>\<open>__proto__\<close>, the
  instructions gain exactly four entries, one for each variant. (Nothing is said of
  the place the new entries take among the properties of the object.)
\<close>

theorem C4_single_descriptor:
  assumes "ass_sizes u = [deviceSize 640 1136]" and "ass_padding u = None"
  shows "map variantKey (emittedVariants ext u) =
        [(False, Some False, 640, 1136), (True, Some False, 1136, 640),
         (False, Some True, 640, 1136), (True, Some True, 1136, 640)]
    \<and> map ssd_padding (emittedVariants ext u) = [3 / 10, 3 / 10, 3 / 10, 3 / 10]
    \<and> map (\<lambda>v. ro_background (gma_resizeOptions
               (asset_buffer (splashScreenAsset img imageAssets (resolveConfig ext u) v))))
        (emittedVariants ext u) =
        [Some (case ro_background (useLightResizeOptions ext u) of
                 Some b \<Rightarrow> b | None \<Rightarrow> ''white''),
         Some (case ro_background (useLightResizeOptions ext u) of
                 Some b \<Rightarrow> b | None \<Rightarrow> ''white''),
         Some (case ro_background (useDarkResizeOptions ext u) of
                 Some b \<Rightarrow> b | None \<Rightarrow> ''black''),
         Some (case ro_background (useDarkResizeOptions ext u) of
                 Some b \<Rightarrow> b | None \<Rightarrow> ''black'')]
    \<and> set (iai_appleSplashScreen
          (fst (resolveAppleSplashScreensInstructions ext img imageAssets instructions (Some u))))
        \<subseteq> set (iai_appleSplashScreen instructions)
          \<union> (\<lambda>v. (asset_url (splashScreenAsset img imageAssets (resolveConfig ext u) v),
                    splashScreenAsset img imageAssets (resolveConfig ext u) v))
              ` set (emittedVariants ext u)
    \<and> (distinct (map (\<lambda>v. asset_url (splashScreenAsset img imageAssets (resolveConfig ext u) v))
                   (emittedVariants ext u))
        \<and> (\<forall>v \<in> set (emittedVariants ext u).
              asset_url (splashScreenAsset img imageAssets (resolveConfig ext u) v)
                \<notin> fst ` set (iai_appleSplashScreen instructions)
              \<and> asset_url (splashScreenAsset img imageAssets (resolveConfig ext u) v)
                \<noteq> ''__proto__'')
        \<longrightarrow> set (iai_appleSplashScreen
                 (fst (resolveAppleSplashScreensInstructions ext img imageAssets instructions
                         (Some u)))) =
              set (iai_appleSplashScreen instructions)
              \<union> (\<lambda>v. (asset_url (splashScreenAsset img imageAssets (resolveConfig ext u) v),
                        splashScreenAsset img imageAssets (resolveConfig ext u) v))
                  ` set (emittedVariants ext u)
            \<and> length (iai_appleSplashScreen
                 (fst (resolveAppleSplashScreensInstructions ext img imageAssets instructions
                         (Some u)))) =
              length (iai_appleSplashScreen instructions) + 4)"
proof -
  let ?sz = "resolveSize ext u (deviceSize 640 1136)"
  have e: "emittedVariants ext u = variantsOf (usePng ext u) ?sz"
    using assms(1) by (simp add: emittedVariants_eq splashScreens_concat)
  have keys: "map variantKey (emittedVariants ext u) =
        [(False, Some False, 640, 1136), (True, Some False, 1136, 640),
         (False, Some True, 640, 1136), (True, Some True, 1136, 640)]"
    unfolding e by (simp add: variantsOf_def Let_def variantKey_def resolveSize_fields
        landscapeSize_def landscapeDarkSize_def deviceSize_def)
  have pads: "map ssd_padding (emittedVariants ext u) = [3 / 10, 3 / 10, 3 / 10, 3 / 10]"
    unfolding e using assms(2)
    by (simp add: variantsOf_def Let_def resolveSize_fields usePadding_def deviceSize_def)
  have bgs: "map (\<lambda>v. ro_background (gma_resizeOptions
               (asset_buffer (splashScreenAsset img imageAssets (resolveConfig ext u) v))))
        (emittedVariants ext u) =
        [Some (case ro_background (useLightResizeOptions ext u) of
                 Some b \<Rightarrow> b | None \<Rightarrow> ''white''),
         Some (case ro_background (useLightResizeOptions ext u) of
                 Some b \<Rightarrow> b | None \<Rightarrow> ''white''),
         Some (case ro_background (useDarkResizeOptions ext u) of
                 Some b \<Rightarrow> b | None \<Rightarrow> ''black''),
         Some (case ro_background (useDarkResizeOptions ext u) of
                 Some b \<Rightarrow> b | None \<Rightarrow> ''black'')]"
    unfolding e
    by (simp add: variantsOf_def Let_def resolveSize_fields landscapeSize_def landscapeOf_def
        splashScreenAsset_def producerResizeOptions_def orEmpty_def deviceSize_def
        split: option.splits)
  have four: "length (emittedVariants ext u) = 4"
    unfolding e by (simp add: length_variantsOf hasDark_def resolveSize_fields)
  have ne: "ras_sizes (resolveConfig ext u) \<noteq> []"
    using assms(1) by (simp add: resolveConfig_def)
  have res: "fst (resolveAppleSplashScreensInstructions ext img imageAssets instructions (Some u)) =
      foldl (assignAsset img imageAssets (resolveConfig ext u)) instructions
        (emittedVariants ext u)"
    using ne
    by (simp add: resolveAppleSplashScreensInstructions_def resolveAppleSplashScreens_def
        emittedVariants_def)
  have upper: "set (iai_appleSplashScreen
          (fst (resolveAppleSplashScreensInstructions ext img imageAssets instructions (Some u))))
        \<subseteq> set (iai_appleSplashScreen instructions)
          \<union> (\<lambda>v. (asset_url (splashScreenAsset img imageAssets (resolveConfig ext u) v),
                    splashScreenAsset img imageAssets (resolveConfig ext u) v))
              ` set (emittedVariants ext u)"
    unfolding res by (rule foldl_assignAsset_entries)
  have entries: "set (iai_appleSplashScreen
                 (fst (resolveAppleSplashScreensInstructions ext img imageAssets instructions
                         (Some u)))) =
              set (iai_appleSplashScreen instructions)
              \<union> (\<lambda>v. (asset_url (splashScreenAsset img imageAssets (resolveConfig ext u) v),
                        splashScreenAsset img imageAssets (resolveConfig ext u) v))
                  ` set (emittedVariants ext u)
            \<and> length (iai_appleSplashScreen
                 (fst (resolveAppleSplashScreensInstructions ext img imageAssets instructions
                         (Some u)))) =
              length (iai_appleSplashScreen instructions) + 4"
    if "distinct (map (\<lambda>v. asset_url (splashScreenAsset img imageAssets (resolveConfig ext u) v))
                   (emittedVariants ext u))
        \<and> (\<forall>v \<in> set (emittedVariants ext u).
              asset_url (splashScreenAsset img imageAssets (resolveConfig ext u) v)
                \<notin> fst ` set (iai_appleSplashScreen instructions)
              \<and> asset_url (splashScreenAsset img imageAssets (resolveConfig ext u) v)
                \<noteq> ''__proto__'')"
  proof -
    from that have d: "distinct (map (\<lambda>v. asset_url
          (splashScreenAsset img imageAssets (resolveConfig ext u) v)) (emittedVariants ext u))"
      and f: "\<forall>v \<in> set (emittedVariants ext u).
              asset_url (splashScreenAsset img imageAssets (resolveConfig ext u) v)
                \<notin> fst ` set (iai_appleSplashScreen instructions)
              \<and> asset_url (splashScreenAsset img imageAssets (resolveConfig ext u) v)
                \<noteq> ''__proto__''"
      by blast+
    show ?thesis
      unfolding res using foldl_assignAsset_fresh [OF d f] by (simp only: four)
  qed
  show ?thesis
    by (intro conjI impI; (rule keys | rule pads | rule bgs | rule upper
        | (rule entries [THEN conjunct1], assumption)
        | (rule entries [THEN conjunct2], assumption)))
qed

theorem C4_single_descriptor_witness:
  "ass_sizes (splashConfig [deviceSize 640 1136]) = [deviceSize 640 1136]
   \<and> ass_padding (splashConfig [deviceSize 640 1136]) = None
   \<and> map variantKey (emittedVariants specExternals (splashConfig [deviceSize 640 1136])) =
        [(False, Some False, 640, 1136), (True, Some False, 1136, 640),
         (False, Some True, 640, 1136), (True, Some True, 1136, 640)]
   \<and> map ssd_padding (emittedVariants specExternals (splashConfig [deviceSize 640 1136])) =
        [3 / 10, 3 / 10, 3 / 10, 3 / 10]
   \<and> map (\<lambda>v. ro_background (gma_resizeOptions
               (asset_buffer (splashScreenAsset [] plainImageAssets
                  (resolveConfig specExternals (splashConfig [deviceSize 640 1136])) v))))
        (emittedVariants specExternals (splashConfig [deviceSize 640 1136])) =
        [Some ''white'', Some ''white'', Some ''black'', Some ''black'']
   \<and> map (\<lambda>v. asset_url (splashScreenAsset [] plainImageAssets
                  (resolveConfig specExternals (splashConfig [deviceSize 640 1136])) v))
        (emittedVariants specExternals (splashConfig [deviceSize 640 1136])) =
        [''/portrait-light.png'', ''/landscape-light.png'', ''/portrait-dark.png'',
         ''/landscape-dark.png'']
   \<and> length (iai_appleSplashScreen
        (fst (resolveAppleSplashScreensInstructions specExternals [] plainImageAssets
                emptyInstructions (Some (splashConfig [deviceSize 640 1136]))))) = 4"
proof -
  let ?u = "splashConfig [deviceSize 640 1136]"
  let ?url = "\<lambda>v. asset_url (splashScreenAsset [] plainImageAssets
      (resolveConfig specExternals ?u) v)"
  have a: "ass_sizes ?u = [deviceSize 640 1136]" and b: "ass_padding ?u = None"
    by (simp_all add: splashConfig_def)
  have l: "ro_background (useLightResizeOptions specExternals ?u) = Some ''white''"
    by (simp add: useLightResizeOptions_def specExternals_def specCreateResizeOptions_def
        splashConfig_def emptyResizeOptions_def)
  have d: "ro_background (useDarkResizeOptions specExternals ?u) = Some ''black''"
    by (simp add: useDarkResizeOptions_def specExternals_def specCreateResizeOptions_def
        splashConfig_def emptyResizeOptions_def)
  have urls: "map ?url (emittedVariants specExternals ?u) =
      [''/portrait-light.png'', ''/landscape-light.png'', ''/portrait-dark.png'',
       ''/landscape-dark.png'']"
    by (simp add: emittedVariants_eq splashScreens_def reducer_def variantsOf_def Let_def
        splashConfig_def deviceSize_def resolveSize_def fillDefaults_def resolveConfig_def
        specExternals_def specSplashScreenName_def splashScreenAsset_def plainImageAssets_def
        landscapeSize_def landscapeDarkSize_def)
  have dist: "distinct (map ?url (emittedVariants specExternals ?u))"
    unfolding urls by simp
  have fresh: "\<forall>v \<in> set (emittedVariants specExternals ?u).
      ?url v \<notin> fst ` set (iai_appleSplashScreen emptyInstructions) \<and> ?url v \<noteq> ''__proto__''"
  proof
    fix v
    assume "v \<in> set (emittedVariants specExternals ?u)"
    then have "?url v \<in> set (map ?url (emittedVariants specExternals ?u))" by simp
    then have "?url v \<in> {''/portrait-light.png'', ''/landscape-light.png'',
        ''/portrait-dark.png'', ''/landscape-dark.png''}"
      unfolding urls by simp
    then show "?url v \<notin> fst ` set (iai_appleSplashScreen emptyInstructions)
        \<and> ?url v \<noteq> ''__proto__''"
      by (auto simp: emptyInstructions_def)
  qed
  note t = C4_single_descriptor [OF a b, of specExternals "[]" plainImageAssets emptyInstructions]
  note t1 = t [THEN conjunct1]
  note t2 = t [THEN conjunct2, THEN conjunct1]
  note t3 = t [THEN conjunct2, THEN conjunct2, THEN conjunct1]
  note t5 = t [THEN conjunct2, THEN conjunct2, THEN conjunct2, THEN conjunct2, THEN mp,
      OF conjI [OF dist fresh], THEN conjunct2]
  have len: "length (iai_appleSplashScreen
        (fst (resolveAppleSplashScreensInstructions specExternals [] plainImageAssets
                emptyInstructions (Some ?u)))) = 4"
    unfolding t5 by (simp add: emptyInstructions_def)
  have bg: "map (\<lambda>v. ro_background (gma_resizeOptions
               (asset_buffer (splashScreenAsset [] plainImageAssets
                  (resolveConfig specExternals ?u) v))))
        (emittedVariants specExternals ?u) =
        [Some ''white'', Some ''white'', Some ''black'', Some ''black'']"
    unfolding t3 by (simp add: l d)
  show ?thesis
    by (intro conjI; (rule a | rule b | rule t1 | rule t2 | rule bg | rule urls | rule len))
qed

section \<open>Configuration errors of \<^verbatim>\<open>run\<close>\<close>

text \<open>\<^verbatim>\<open>run\<close> once the configuration is loaded.\<close>

lemma run_loaded:
  assumes "loadConfig (case cli_root cliOptions of None \<Rightarrow> cwd | Some r \<Rightarrow> r) cliOptions
             = Inr config"
  shows "run loadConfig downstream cwd imgs cliOptions =
     Returned
       (case uc_preset config of
          None \<Rightarrow> \<lparr>rr_resolveCalls = [], rr_promise = Rejected NoPresetFound\<rparr>
        | Some preset \<Rightarrow>
            if \<not> truthyPreset preset
            then \<lparr>rr_resolveCalls = [], rr_promise = Rejected NoPresetFound\<rparr>
            else
            (let images = (if imgs \<noteq> [] then Some (ImageList imgs) else uc_images config)
             in if \<not> hasLength images
                then \<lparr>rr_resolveCalls = [], rr_promise = Rejected NoImagesProvided\<rparr>
                else
                  (let calls =
                         map (resolveInstructionsArgs
                                (case cli_root cliOptions of None \<Rightarrow> cwd | Some r \<Rightarrow> r)
                                preset (uc_headLinkOptions config))
                           (case images of
                              Some (ImageList xs) \<Rightarrow> xs
                            | Some (OneImage x) \<Rightarrow> [x]
                            | None \<Rightarrow> [])
                   in \<lparr>rr_resolveCalls = calls,
                       rr_promise =
                         (case downstream calls
                                 \<lparr>rs_useOverrideAssets =
                                    (if cli_override cliOptions = Some False then False
                                     else (case uc_overrideAssets config of
                                             None \<Rightarrow> True | Some b \<Rightarrow> b)),
                                  rs_log = ((case uc_logLevel config of
                                               None \<Rightarrow> ''info'' | Some l \<Rightarrow> l) \<noteq> ''silent''),
                                  rs_useManifestIconsEntry =
                                    (if cli_manifest cliOptions = Some False then False
                                     else (case uc_manifestIconsEntry config of
                                             None \<Rightarrow> True | Some b \<Rightarrow> b))\<rparr> of
                            None \<Rightarrow> Fulfilled ()
                          | Some msg \<Rightarrow> Rejected (Failure msg))\<rparr>)))"
  unfolding run_def Let_def assms
  by (cases "uc_preset config"; cases "imgs = []"; simp)

text \<open>
  C9, as stated, fails in one respect: \<^verbatim>\<open>run\<close> throws nothing synchronously. It is an
  \<^verbatim>\<open>async\<close> function, and it awaits the loading of the configuration before it checks
  anything, so the call returns a promise and the error is the rejection of that
  promise. With a loaded configuration that has no preset, the call returns; it does
  not throw.
\<close>

theorem C9_counterexample:
  "run (\<lambda>rootDir cliOptions. Inr (userConfig None (Some (OneImage ''logo.svg''))))
       (\<lambda>calls settings. None) ''/project'' [] noCliOptions =
     Returned \<lparr>rr_resolveCalls = [], rr_promise = Rejected NoPresetFound\<rparr>
   \<and> run (\<lambda>rootDir cliOptions. Inr (userConfig None (Some (OneImage ''logo.svg''))))
       (\<lambda>calls settings. None) ''/project'' [] noCliOptions \<noteq> Thrown NoPresetFound"
  by (simp add: run_def userConfig_def noCliOptions_def)

text \<open>
  C9, amended. \<^verbatim>\<open>run\<close> fails fast on configuration errors by rejecting the promise it
  returns. The code tests the preset and the images by truthiness, so a preset is
  missing when the loaded configuration has none or has the empty string as its preset
  name, and images are missing when neither the command line nor the configuration
  supplies a non-empty image list (or a non-empty single file name). Whenever the preset
  is missing, the promise is rejected with \<^verbatim>\<open>No preset found\<close>; whenever the preset is
  there and the images are missing, with \<^verbatim>\<open>No images provided\<close>; in both cases no
  instruction resolution has been invoked. When a preset and at least one image are
  present, resolution is invoked (once per image) and the promise does not settle with
  either configuration error. No call of \<^verbatim>\<open>run\<close> throws.
\<close>

theorem C9_configuration_errors:
  assumes "loadConfig (case cli_root cliOptions of None \<Rightarrow> cwd | Some r \<Rightarrow> r) cliOptions
             = Inr config"
  shows "(\<not> hasPreset (uc_preset config) \<longrightarrow>
            run loadConfig downstream cwd imgs cliOptions =
              Returned \<lparr>rr_resolveCalls = [], rr_promise = Rejected NoPresetFound\<rparr>)
    \<and> (hasPreset (uc_preset config) \<and> imgs = [] \<and> \<not> hasLength (uc_images config) \<longrightarrow>
            run loadConfig downstream cwd imgs cliOptions =
              Returned \<lparr>rr_resolveCalls = [], rr_promise = Rejected NoImagesProvided\<rparr>)
    \<and> (hasPreset (uc_preset config) \<and> (imgs \<noteq> [] \<or> hasLength (uc_images config)) \<longrightarrow>
          (\<exists>calls outcome.
             run loadConfig downstream cwd imgs cliOptions =
               Returned \<lparr>rr_resolveCalls = calls, rr_promise = outcome\<rparr>
             \<and> length calls =
                 length (if imgs \<noteq> [] then imgs
                         else (case uc_images config of
                                 Some (ImageList xs) \<Rightarrow> xs
                               | Some (OneImage x) \<Rightarrow> [x]
                               | None \<Rightarrow> []))
             \<and> calls \<noteq> []
             \<and> outcome \<noteq> Rejected NoPresetFound
             \<and> outcome \<noteq> Rejected NoImagesProvided))
    \<and> (\<forall>e. run loadConfig downstream cwd imgs cliOptions \<noteq> Thrown e)"
proof -
  note r = run_loaded [where loadConfig = loadConfig and cliOptions = cliOptions and cwd = cwd
      and config = config and downstream = downstream and imgs = imgs, OF assms]
  have none: "run loadConfig downstream cwd imgs cliOptions =
      Returned \<lparr>rr_resolveCalls = [], rr_promise = Rejected NoPresetFound\<rparr>"
    if "\<not> hasPreset (uc_preset config)"
  proof (cases "uc_preset config")
    case None
    then show ?thesis unfolding r by simp
  next
    case (Some preset)
    then have "\<not> truthyPreset preset" using that by (simp add: hasPreset_def)
    then show ?thesis unfolding r using Some by simp
  qed
  have noimg: "run loadConfig downstream cwd imgs cliOptions =
      Returned \<lparr>rr_resolveCalls = [], rr_promise = Rejected NoImagesProvided\<rparr>"
    if "hasPreset (uc_preset config) \<and> imgs = [] \<and> \<not> hasLength (uc_images config)"
  proof -
    from that obtain preset where "uc_preset config = Some preset" "truthyPreset preset"
      by (auto simp: hasPreset_def split: option.splits)
    then show ?thesis using that unfolding r by simp
  qed
  have ok: "\<exists>calls outcome.
      run loadConfig downstream cwd imgs cliOptions =
        Returned \<lparr>rr_resolveCalls = calls, rr_promise = outcome\<rparr>
      \<and> length calls =
          length (if imgs \<noteq> [] then imgs
                  else (case uc_images config of
                          Some (ImageList xs) \<Rightarrow> xs
                        | Some (OneImage x) \<Rightarrow> [x]
                        | None \<Rightarrow> []))
      \<and> calls \<noteq> []
      \<and> outcome \<noteq> Rejected NoPresetFound
      \<and> outcome \<noteq> Rejected NoImagesProvided"
    if a: "hasPreset (uc_preset config) \<and> (imgs \<noteq> [] \<or> hasLength (uc_images config))"
  proof -
    from a obtain preset where p: "uc_preset config = Some preset" and tp: "truthyPreset preset"
      by (auto simp: hasPreset_def split: option.splits)
    define images where "images = (if imgs \<noteq> [] then Some (ImageList imgs) else uc_images config)"
    define useImages where "useImages =
        (case images of Some (ImageList xs) \<Rightarrow> xs | Some (OneImage x) \<Rightarrow> [x] | None \<Rightarrow> [])"
    have h: "hasLength images"
      using a by (auto simp: images_def hasLength_def)
    have ne: "useImages \<noteq> []"
      using h by (auto simp: useImages_def hasLength_def split: option.splits images.splits)
    have same: "useImages =
        (if imgs \<noteq> [] then imgs
         else (case uc_images config of
                 Some (ImageList xs) \<Rightarrow> xs | Some (OneImage x) \<Rightarrow> [x] | None \<Rightarrow> []))"
      by (simp add: useImages_def images_def)
    define calls where "calls =
        map (resolveInstructionsArgs (case cli_root cliOptions of None \<Rightarrow> cwd | Some r \<Rightarrow> r)
               preset (uc_headLinkOptions config)) useImages"
    define settings where "settings =
        \<lparr>rs_useOverrideAssets =
           (if cli_override cliOptions = Some False then False
            else (case uc_overrideAssets config of None \<Rightarrow> True | Some b \<Rightarrow> b)),
         rs_log = ((case uc_logLevel config of None \<Rightarrow> ''info'' | Some l \<Rightarrow> l) \<noteq> ''silent''),
         rs_useManifestIconsEntry =
           (if cli_manifest cliOptions = Some False then False
            else (case uc_manifestIconsEntry config of None \<Rightarrow> True | Some b \<Rightarrow> b))\<rparr>"
    define outcome where "outcome =
        (case downstream calls settings of
           None \<Rightarrow> Fulfilled () | Some msg \<Rightarrow> Rejected (Failure msg))"
    have run: "run loadConfig downstream cwd imgs cliOptions =
        Returned \<lparr>rr_resolveCalls = calls, rr_promise = outcome\<rparr>"
      unfolding r p outcome_def settings_def calls_def useImages_def
      using h tp unfolding images_def
      by (simp only: Let_def option.case if_True if_False not_not not_True_eq_False simp_thms)
    have calls: "length calls = length useImages"
      by (simp add: calls_def)
    have outcome: "outcome = Fulfilled () \<or> (\<exists>msg. outcome = Rejected (Failure msg))"
      by (cases "downstream calls settings") (simp_all add: outcome_def)
    have "calls \<noteq> []" using calls ne by auto
    moreover have "outcome \<noteq> Rejected NoPresetFound" "outcome \<noteq> Rejected NoImagesProvided"
      using outcome by auto
    ultimately show ?thesis using run calls same by auto
  qed
  have never: "run loadConfig downstream cwd imgs cliOptions \<noteq> Thrown e" for e
    by (simp add: run_def)
  show ?thesis
    by (intro conjI impI allI; (rule none | rule noimg | rule ok | rule never); assumption?)
qed

theorem C9_configuration_errors_witness:
  "run (\<lambda>rootDir cliOptions. Inr (userConfig None None)) (\<lambda>calls settings. None)
       ''/project'' [''logo.svg''] noCliOptions =
     Returned \<lparr>rr_resolveCalls = [], rr_promise = Rejected NoPresetFound\<rparr>
   \<and> run (\<lambda>rootDir cliOptions. Inr (userConfig (Some (PresetName [])) None))
       (\<lambda>calls settings. None) ''/project'' [''logo.svg''] noCliOptions =
     Returned \<lparr>rr_resolveCalls = [], rr_promise = Rejected NoPresetFound\<rparr>
   \<and> run (\<lambda>rootDir cliOptions.
            Inr (userConfig (Some (PresetName ''minimal'')) (Some (ImageList []))))
       (\<lambda>calls settings. None) ''/project'' [] noCliOptions =
     Returned \<lparr>rr_resolveCalls = [], rr_promise = Rejected NoImagesProvided\<rparr>
   \<and> map ria_originalName
       (case run (\<lambda>rootDir cliOptions. Inr (userConfig (Some (PresetName ''minimal'')) None))
               (\<lambda>calls settings. None) ''/project'' [''logo.svg'', ''icon.png''] noCliOptions of
          Returned st \<Rightarrow> rr_resolveCalls st
        | Thrown e \<Rightarrow> []) = [''logo.svg'', ''icon.png'']"
proof -
  let ?load1 = "\<lambda>(rootDir :: string) (cliOptions :: CliOptions).
      (Inr (userConfig None None) :: error + unit UserConfig)"
  let ?load1' = "\<lambda>(rootDir :: string) (cliOptions :: CliOptions).
      (Inr (userConfig (Some (PresetName [])) None) :: error + unit UserConfig)"
  let ?load2 = "\<lambda>(rootDir :: string) (cliOptions :: CliOptions).
      (Inr (userConfig (Some (PresetName ''minimal'')) (Some (ImageList [])))
        :: error + unit UserConfig)"
  let ?down = "\<lambda>(calls :: unit ResolveInstructionsArgs list) (settings :: RunSettings).
      (None :: string option)"
  have a: "run ?load1 ?down ''/project'' [''logo.svg''] noCliOptions =
      Returned \<lparr>rr_resolveCalls = [], rr_promise = Rejected NoPresetFound\<rparr>"
    using C9_configuration_errors [where loadConfig = ?load1 and cliOptions = noCliOptions
        and cwd = "''/project''" and config = "userConfig None None" and downstream = ?down
        and imgs = "[''logo.svg'']"]
    by (simp add: userConfig_def hasPreset_def)
  have a': "run ?load1' ?down ''/project'' [''logo.svg''] noCliOptions =
      Returned \<lparr>rr_resolveCalls = [], rr_promise = Rejected NoPresetFound\<rparr>"
    using C9_configuration_errors [where loadConfig = ?load1' and cliOptions = noCliOptions
        and cwd = "''/project''" and config = "userConfig (Some (PresetName [])) None"
        and downstream = ?down and imgs = "[''logo.svg'']"]
    by (simp add: userConfig_def hasPreset_def truthyPreset_def)
  have b: "run ?load2 ?down ''/project'' [] noCliOptions =
      Returned \<lparr>rr_resolveCalls = [], rr_promise = Rejected NoImagesProvided\<rparr>"
    using C9_configuration_errors [where loadConfig = ?load2 and cliOptions = noCliOptions
        and cwd = "''/project''"
        and config = "userConfig (Some (PresetName ''minimal'')) (Some (ImageList []))"
        and downstream = ?down and imgs = "[]"]
    by (simp add: userConfig_def hasLength_def hasPreset_def truthyPreset_def)
  have c: "map ria_originalName
       (case run (\<lambda>rootDir cliOptions. Inr (userConfig (Some (PresetName ''minimal'')) None))
               ?down ''/project'' [''logo.svg'', ''icon.png''] noCliOptions of
          Returned st \<Rightarrow> rr_resolveCalls st
        | Thrown e \<Rightarrow> []) = [''logo.svg'', ''icon.png'']"
    by (simp add: run_def userConfig_def noCliOptions_def hasLength_def Let_def
        resolveInstructionsArgs_def truthyPreset_def)
  from a a' b c show ?thesis by simp
qed

end
